theory Spec2Isabelle
  imports Main "HOL-Library.AList"
begin

section \<open>ENT login flows of pronotepy/ent/generic\_func.py\<close>

text \<open>
  The module holds eight procedures. Each one performs a short, fixed sequence of HTTP
  exchanges through a \<^verbatim>\<open>requests.Session\<close>, scrapes the answers with BeautifulSoup and
  returns the cookie jar of its session. The embedding below makes the following explicit:
  \<^item> the exceptions the Python raises are values of \<open>error\<close>, and every procedure returns
    \<open>error + 'a\<close> together with the world it leaves behind;
  \<^item> the world records every call made on the HTTP client, oldest first, and the cookie
    jar of every Session object (a store indexed by the object's identity, since
    \<^verbatim>\<open>_educonnect\<close> works on the session of its caller);
  \<^item> the remote servers are a parameter \<open>net\<close>: the answer to a request may depend on all
    requests made before it; \<open>None\<close> is an exception raised by the HTTP client;
  \<^item> \<^verbatim>\<open>BeautifulSoup(response.text, "html.parser")\<close> is the field \<open>rs_soup\<close> of a response:
    the parsed document, a list of nodes. The HTML parser itself is not modelled;
  \<^item> the logging calls have no effect on results and are left out.
  A leading underscore cannot start an Isabelle name: \<^verbatim>\<open>_cas\<close> is \<open>u_cas\<close>, and so on.
\<close>

subsection \<open>Exceptions and dynamically typed values\<close>

datatype error =
    ENTLoginError string
  | NameError string
  | AttributeError string
  | TypeError string
  | KeyError string
  | RequestException

text \<open>
  The values that reach the parameters of \<^verbatim>\<open>_educonnect\<close> and the payload dictionaries:
  \<^verbatim>\<open>None\<close>, a \<^verbatim>\<open>str\<close>, or a reference to a Session object.
\<close>

datatype pyobj = PyNone | PyStr string | PySession nat

text \<open>Python's truth value: \<^verbatim>\<open>not url\<close> holds for \<^verbatim>\<open>None\<close> and for the empty string.\<close>

fun truthy :: "pyobj \<Rightarrow> bool" where
  "truthy PyNone = False"
| "truthy (PyStr s) = (s \<noteq> [])"
| "truthy (PySession _) = True"

subsection \<open>Parsed documents\<close>

text \<open>
  A document is a forest of tags (name, attribute dictionary as an association list,
  children) and strings.
\<close>

datatype node = Tag string "(string \<times> string) list" "node list" | NavigableString string

fun attrs :: "node \<Rightarrow> (string \<times> string) list" where
  "attrs (Tag name a children) = a"
| "attrs (NavigableString s) = []"

fun tag_name :: "node \<Rightarrow> string" where
  "tag_name (Tag name a children) = name"
| "tag_name (NavigableString s) = []"

fun contents :: "node \<Rightarrow> node list" where
  "contents (Tag name a children) = children"
| "contents (NavigableString s) = []"

text \<open>All tags below a list of nodes, in document order (the order \<^verbatim>\<open>find\<close> searches in).\<close>

fun descendants :: "node list \<Rightarrow> node list" where
  "descendants [] = []"
| "descendants (NavigableString s # ns) = descendants ns"
| "descendants (Tag name a children # ns) =
     Tag name a children # descendants children @ descendants ns"

text \<open>\<^verbatim>\<open>tag.get_text()\<close>: the strings below the tag, concatenated.\<close>

fun strings :: "node list \<Rightarrow> string" where
  "strings [] = []"
| "strings (NavigableString s # ns) = s @ strings ns"
| "strings (Tag name a children # ns) = strings children @ strings ns"

definition get_text :: "node \<Rightarrow> string" where
  "get_text t = strings (contents t)"

text \<open>
  The HTML tree builder splits the value of a multi-valued attribute at white space;
  a wanted string matches such an attribute when it equals one of the parts, or the
  parts joined by single spaces. Every other attribute matches by equality.
\<close>

definition isspace :: "char \<Rightarrow> bool" where
  "isspace c = (c \<in> set [CHR '' '', CHR 0x09, CHR 0x0A, CHR 0x0B, CHR 0x0C, CHR 0x0D])"

fun split_ws :: "string \<Rightarrow> string \<Rightarrow> string list" where
  "split_ws cur [] = (if cur = [] then [] else [cur])"
| "split_ws cur (c # cs) =
     (if isspace c then (if cur = [] then split_ws [] cs else cur # split_ws [] cs)
      else split_ws (cur @ [c]) cs)"

fun join_sp :: "string list \<Rightarrow> string" where
  "join_sp [] = []"
| "join_sp [t] = t"
| "join_sp (t # ts) = t @ '' '' @ join_sp ts"

definition cdata_list_attribute :: "string \<Rightarrow> string \<Rightarrow> bool" where
  "cdata_list_attribute name key =
     (key \<in> set [''class'', ''accesskey'', ''dropzone'']
      \<or> (name = ''form'' \<and> key = ''accept-charset''))"

definition attr_matches :: "node \<Rightarrow> string \<times> string \<Rightarrow> bool" where
  "attr_matches t kv =
     (case map_of (attrs t) (fst kv) of
        None \<Rightarrow> False
      | Some v \<Rightarrow>
          if cdata_list_attribute (tag_name t) (fst kv)
          then (snd kv \<in> set (split_ws [] v) \<or> join_sp (split_ws [] v) = snd kv)
          else v = snd kv)"

definition matches :: "string \<Rightarrow> (string \<times> string) list \<Rightarrow> node \<Rightarrow> bool" where
  "matches name wanted t = (tag_name t = name \<and> list_all (attr_matches t) wanted)"

text \<open>\<^verbatim>\<open>soup.find(name, attrs)\<close>: the first matching tag, or \<^verbatim>\<open>None\<close>.\<close>

definition find_tag :: "string \<Rightarrow> (string \<times> string) list \<Rightarrow> node list \<Rightarrow> node option" where
  "find_tag name wanted soup = List.find (matches name wanted) (descendants soup)"

text \<open>\<^verbatim>\<open>tag.findAll(name)\<close>: every matching tag below \<open>tag\<close>.\<close>

definition findAll :: "string \<Rightarrow> node \<Rightarrow> node list" where
  "findAll name t = filter (matches name []) (descendants (contents t))"

text \<open>
  \<^verbatim>\<open>tag[key]\<close>: subscripting \<^verbatim>\<open>None\<close> is a TypeError, a missing attribute a KeyError.
\<close>

definition getitem :: "node option \<Rightarrow> string \<Rightarrow> error + string" where
  "getitem tag key =
     (case tag of
        None \<Rightarrow> Inl (TypeError ''NoneType object is not subscriptable'')
      | Some t \<Rightarrow>
          (case map_of (attrs t) key of None \<Rightarrow> Inl (KeyError key) | Some v \<Rightarrow> Inr v))"

text \<open>\<^verbatim>\<open>tag.get(key)\<close>: \<^verbatim>\<open>None\<close> for a missing attribute.\<close>

definition tag_get :: "node \<Rightarrow> string \<Rightarrow> pyobj" where
  "tag_get t key = (case map_of (attrs t) key of None \<Rightarrow> PyNone | Some v \<Rightarrow> PyStr v)"

subsection \<open>The HTTP client\<close>

datatype http_method = GET | POST

record request =
  rq_method :: http_method
  rq_url :: string
  rq_params :: "(string \<times> string) list"
  rq_headers :: "(string \<times> string) list"
  rq_data :: "(string \<times> pyobj) list"
  rq_cookies :: "(string \<times> string) list"

text \<open>
  A response: its final URL (after redirects), its status code, its parsed text and the
  cookies the exchange sets.
\<close>

record response =
  rs_url :: string
  rs_status :: nat
  rs_soup :: "node list"
  rs_cookies :: "(string \<times> string) list"

text \<open>\<^verbatim>\<open>bool(response)\<close> is \<^verbatim>\<open>response.ok\<close>: the status is not a 4xx or 5xx.\<close>

definition ok :: "response \<Rightarrow> bool" where
  "ok r = (\<not> (400 \<le> rs_status r \<and> rs_status r < 600))"

type_synonym network = "request list \<Rightarrow> request \<Rightarrow> response option"

record world =
  w_trace :: "request list"
  w_jars :: "nat \<Rightarrow> (string \<times> string) list"
  w_next :: nat

type_synonym 'a py = "world \<Rightarrow> (error + 'a) \<times> world"

definition ret :: "'a \<Rightarrow> 'a py" where
  "ret x w = (Inr x, w)"

definition raise :: "error \<Rightarrow> 'a py" where
  "raise e w = (Inl e, w)"

definition lift :: "error + 'a \<Rightarrow> 'a py" where
  "lift r w = (r, w)"

definition bnd :: "'a py \<Rightarrow> ('a \<Rightarrow> 'b py) \<Rightarrow> 'b py" where
  "bnd m f w = (case m w of (Inl e, w') \<Rightarrow> (Inl e, w') | (Inr x, w') \<Rightarrow> f x w')"

definition HEADERS :: "(string \<times> string) list" where
  "HEADERS = [(''User-Agent'',
     ''Mozilla/5.0 (X11; Ubuntu; Linux x86_64; rv:73.0) Gecko/20100101 Firefox/73.0'')]"

text \<open>\<^verbatim>\<open>requests.Session()\<close>: a fresh object with an empty cookie jar.\<close>

definition fresh_session :: "world \<Rightarrow> world" where
  "fresh_session w = w\<lparr>w_jars := (w_jars w)(w_next w := []), w_next := Suc (w_next w)\<rparr>"

definition Session :: "nat py" where
  "Session w = (Inr (w_next w), fresh_session w)"

text \<open>\<^verbatim>\<open>session.cookies\<close>.\<close>

definition cookies :: "nat \<Rightarrow> (string \<times> string) list py" where
  "cookies session w = (Inr (w_jars w session), w)"

definition set_cookies ::
  "(string \<times> string) list \<Rightarrow> (string \<times> string) list \<Rightarrow> (string \<times> string) list" where
  "set_cookies new jar = fold (\<lambda>kv. AList.update (fst kv) (snd kv)) new jar"

definition get_request ::
  "string \<Rightarrow> (string \<times> string) list \<Rightarrow> (string \<times> string) list \<Rightarrow> request" where
  "get_request url params jar =
     \<lparr>rq_method = GET, rq_url = url, rq_params = params, rq_headers = HEADERS,
      rq_data = [], rq_cookies = jar\<rparr>"

definition post_request ::
  "string \<Rightarrow> (string \<times> pyobj) list \<Rightarrow> (string \<times> string) list \<Rightarrow> request" where
  "post_request url payload jar =
     \<lparr>rq_method = POST, rq_url = url, rq_params = [], rq_headers = HEADERS,
      rq_data = payload, rq_cookies = jar\<rparr>"

text \<open>
  One exchange: the request is recorded, the servers answer (or the client raises), and
  the cookies of the answer go into the session's jar.
\<close>

definition failed_exchange :: "request \<Rightarrow> world \<Rightarrow> world" where
  "failed_exchange rq w = w\<lparr>w_trace := w_trace w @ [rq]\<rparr>"

definition exchange :: "nat \<Rightarrow> request \<Rightarrow> response \<Rightarrow> world \<Rightarrow> world" where
  "exchange session rq rs w =
     w\<lparr>w_trace := w_trace w @ [rq],
       w_jars := (w_jars w)(session := set_cookies (rs_cookies rs) (w_jars w session))\<rparr>"

definition send :: "network \<Rightarrow> nat \<Rightarrow> request \<Rightarrow> response py" where
  "send net session rq w =
     (case net (w_trace w) rq of
        None \<Rightarrow> (Inl RequestException, failed_exchange rq w)
      | Some rs \<Rightarrow> (Inr rs, exchange session rq rs w))"

definition session_get ::
  "network \<Rightarrow> nat \<Rightarrow> string \<Rightarrow> (string \<times> string) list \<Rightarrow> response py" where
  "session_get net session url params w =
     send net session (get_request url params (w_jars w session)) w"

definition session_post ::
  "network \<Rightarrow> nat \<Rightarrow> string \<Rightarrow> (string \<times> pyobj) list \<Rightarrow> response py" where
  "session_post net session url payload w =
     send net session (post_request url payload (w_jars w session)) w"

text \<open>
  \<^verbatim>\<open>session.post(url, headers=HEADERS, data=payload)\<close> where \<open>session\<close> and \<open>url\<close> are
  whatever the caller passed: a \<^verbatim>\<open>str\<close> and \<^verbatim>\<open>None\<close> have no attribute \<^verbatim>\<open>post\<close>, and the
  client refuses a URL that is not a string before it sends anything.
\<close>

definition post_on :: "network \<Rightarrow> pyobj \<Rightarrow> pyobj \<Rightarrow> (string \<times> pyobj) list \<Rightarrow> response py" where
  "post_on net session url payload =
     (case session of
        PySession s \<Rightarrow>
          (case url of PyStr u \<Rightarrow> session_post net s u payload | _ \<Rightarrow> raise RequestException)
      | _ \<Rightarrow> raise (AttributeError ''post''))"

subsection \<open>\<^verbatim>\<open>_educonnect\<close> (lines 20 to 60)\<close>

definition u_educonnect ::
  "network \<Rightarrow> pyobj \<Rightarrow> pyobj \<Rightarrow> pyobj \<Rightarrow> pyobj \<Rightarrow> response option py" where
  "u_educonnect net session username password url =
     (if \<not> truthy url then raise (ENTLoginError ''Missing url attribute'')
      else
        bnd (post_on net session url
               [(''j_username'', username), (''j_password'', password),
                (''_eventId_proceed'', PyStr [])]) (\<lambda>response.
        let soup = rs_soup response;
            input_SAMLResponse = find_tag ''input'' [(''name'', ''SAMLResponse'')] soup
        in case input_SAMLResponse of
             None \<Rightarrow> ret None
           | Some tag \<Rightarrow>
               bnd (lift (getitem (Some tag) ''value'')) (\<lambda>saml.
               let input_relayState = find_tag ''input'' [(''name'', ''RelayState'')] soup in
               bnd (case input_relayState of
                      None \<Rightarrow> ret [(''SAMLResponse'', PyStr saml)]
                    | Some rtag \<Rightarrow>
                        bnd (lift (getitem (Some rtag) ''value'')) (\<lambda>relay.
                        ret (AList.update ''RelayState'' (PyStr relay)
                               [(''SAMLResponse'', PyStr saml)]))) (\<lambda>payload.
               bnd (lift (getitem (find_tag ''form'' [] soup) ''action'')) (\<lambda>action.
               bnd (post_on net session (PyStr action) payload) (\<lambda>response.
               ret (Some response)))))))"

subsection \<open>The names \<^verbatim>\<open>educonnect\<close> and \<^verbatim>\<open>open_ent_ng\<close>\<close>

text \<open>
  \<^verbatim>\<open>_cas_edu\<close> and \<^verbatim>\<open>_open_ent_ng_edu\<close> call \<^verbatim>\<open>educonnect\<close> and \<^verbatim>\<open>open_ent_ng\<close>, names
  the module does not define (it defines \<^verbatim>\<open>_educonnect\<close> and \<^verbatim>\<open>_open_ent_ng\<close>). Python
  looks a global name up when the call is evaluated, before its arguments, and raises
  NameError when the name is unbound. The binding of each name is a parameter of the
  model: \<open>None\<close> when the name is unbound, \<open>Some f\<close> when it is bound to a callable \<open>f\<close>.
\<close>

type_synonym relay = "pyobj \<Rightarrow> pyobj \<Rightarrow> pyobj \<Rightarrow> pyobj \<Rightarrow> response option py"

type_synonym fallback = "string \<Rightarrow> string \<Rightarrow> string \<Rightarrow> (string \<times> string) list py"

definition call_educonnect ::
  "relay option \<Rightarrow> pyobj \<Rightarrow> pyobj \<Rightarrow> pyobj \<Rightarrow> pyobj \<Rightarrow> response option py" where
  "call_educonnect educonnect a b c d =
     (case educonnect of None \<Rightarrow> raise (NameError ''educonnect'') | Some f \<Rightarrow> f a b c d)"

subsection \<open>\<^verbatim>\<open>_cas_edu\<close> (lines 63 to 102)\<close>

definition u_cas_edu ::
  "relay option \<Rightarrow> network \<Rightarrow> string \<Rightarrow> string \<Rightarrow> string \<Rightarrow> (string \<times> string) list py" where
  "u_cas_edu educonnect net username password url =
     (if url = [] then raise (ENTLoginError ''Missing url attribute'')
      else
        bnd Session (\<lambda>session.
        bnd (session_get net session url []) (\<lambda>response.
        let soup = rs_soup response in
        bnd (lift (getitem (find_tag ''input'' [(''name'', ''RelayState'')] soup) ''value''))
          (\<lambda>relay.
        bnd (lift (getitem (find_tag ''input'' [(''name'', ''SAMLRequest'')] soup) ''value''))
          (\<lambda>saml.
        let payload = [(''RelayState'', PyStr relay), (''SAMLRequest'', PyStr saml)] in
        bnd (lift (getitem (find_tag ''form'' [] soup) ''action'')) (\<lambda>action.
        bnd (session_post net session action payload) (\<lambda>response.
        bnd (call_educonnect educonnect (PyStr (rs_url response)) (PySession session)
               (PyStr username) (PyStr password)) (\<lambda>_.
        cookies session))))))))"

subsection \<open>The form loop of \<^verbatim>\<open>_cas\<close>, \<^verbatim>\<open>_oze_ent\<close> and \<^verbatim>\<open>_simple_auth\<close>\<close>

text \<open>
  \<^verbatim>\<open>for input_ in form.findAll("input"): payload[input_["name"]] = input_.get("value")\<close>.
  Assigning to a key the dictionary holds replaces its value in place; a new key goes
  to the end. When \<^verbatim>\<open>soup.find\<close> returned \<^verbatim>\<open>None\<close>, \<^verbatim>\<open>form.findAll\<close> is an AttributeError.
\<close>

fun form_inputs :: "node list \<Rightarrow> (string \<times> pyobj) list \<Rightarrow> error + (string \<times> pyobj) list" where
  "form_inputs [] payload = Inr payload"
| "form_inputs (input # rest) payload =
     (case map_of (attrs input) ''name'' of
        None \<Rightarrow> Inl (KeyError ''name'')
      | Some name \<Rightarrow> form_inputs rest (AList.update name (tag_get input ''value'') payload))"

subsection \<open>\<^verbatim>\<open>_cas\<close> (lines 105 to 144)\<close>

definition u_cas ::
  "network \<Rightarrow> string \<Rightarrow> string \<Rightarrow> string \<Rightarrow> (string \<times> string) list py" where
  "u_cas net username password url =
     (if url = [] then raise (ENTLoginError ''Missing url attribute'')
      else
        bnd Session (\<lambda>session.
        bnd (session_get net session url []) (\<lambda>response.
        let soup = rs_soup response;
            form = find_tag ''form'' [(''class'', ''cas__login-form'')] soup
        in case form of
             None \<Rightarrow> raise (AttributeError ''findAll'')
           | Some f \<Rightarrow>
               bnd (lift (form_inputs (findAll ''input'' f) [])) (\<lambda>payload.
               let payload = AList.update ''username'' (PyStr username) payload;
                   payload = AList.update ''password'' (PyStr password) payload in
               bnd (session_post net session (rs_url response) payload) (\<lambda>_.
               cookies session)))))"

subsection \<open>\<^verbatim>\<open>_open_ent_ng\<close> (lines 194 to 224)\<close>

definition u_open_ent_ng ::
  "network \<Rightarrow> string \<Rightarrow> string \<Rightarrow> string \<Rightarrow> (string \<times> string) list py" where
  "u_open_ent_ng net username password url =
     (if url = [] then raise (ENTLoginError ''Missing url attribute'')
      else
        bnd Session (\<lambda>session.
        let payload = [(''email'', PyStr username), (''password'', PyStr password)] in
        bnd (session_post net session url payload) (\<lambda>response.
        cookies session)))"

subsection \<open>\<^verbatim>\<open>_open_ent_ng_edu\<close> (lines 147 to 191)\<close>

text \<open>
  \<^verbatim>\<open>open_ent_ng(response.url, username, password)\<close>: the name is looked up first, then
  \<^verbatim>\<open>response.url\<close> is evaluated, which is an AttributeError when \<open>response\<close> is \<^verbatim>\<open>None\<close>.
\<close>

definition call_open_ent_ng ::
  "fallback option \<Rightarrow> response option \<Rightarrow> string \<Rightarrow> string \<Rightarrow> (string \<times> string) list py" where
  "call_open_ent_ng open_ent_ng response username password =
     (case open_ent_ng of
        None \<Rightarrow> raise (NameError ''open_ent_ng'')
      | Some f \<Rightarrow>
          (case response of
             None \<Rightarrow> raise (AttributeError ''url'')
           | Some r \<Rightarrow> f (rs_url r) username password))"

text \<open>
  \<^verbatim>\<open>if not response\<close> holds when \<open>response\<close> is \<^verbatim>\<open>None\<close>, and when it is a response
  whose status is an error.
\<close>

definition u_open_ent_ng_edu ::
  "relay option \<Rightarrow> fallback option \<Rightarrow> network \<Rightarrow> string \<Rightarrow> string \<Rightarrow> string \<Rightarrow>
   (string \<times> string) list py" where
  "u_open_ent_ng_edu educonnect open_ent_ng net username password domain =
     (if domain = [] then raise (ENTLoginError ''Missing domain attribute'')
      else
        let ent_login_page =
              ''https://educonnect.education.gouv.fr/idp/profile/SAML2/Unsolicited/SSO'' in
        bnd Session (\<lambda>session.
        let params = [(''providerId'', domain @ ''/auth/saml/metadata/idp.xml'')] in
        bnd (session_get net session ent_login_page params) (\<lambda>response.
        bnd (call_educonnect educonnect (PyStr (rs_url response)) (PySession session)
               (PyStr username) (PyStr password)) (\<lambda>response.
        case response of
          None \<Rightarrow> call_open_ent_ng open_ent_ng response username password
        | Some r \<Rightarrow>
            if \<not> ok r then call_open_ent_ng open_ent_ng response username password
            else
              (case find_tag ''title'' [] (rs_soup r) of
                 None \<Rightarrow> raise (AttributeError ''get_text'')
               | Some title \<Rightarrow>
                   if get_text title = ''Authentification''
                   then call_open_ent_ng open_ent_ng response username password
                   else cookies session)))))"

subsection \<open>\<^verbatim>\<open>_wayf\<close> (lines 227 to 280)\<close>

text \<open>
  The call on line 278 is \<^verbatim>\<open>_educonnect(response.url, session, username, password)\<close>,
  and the parameters of \<^verbatim>\<open>_educonnect\<close> are \<^verbatim>\<open>(session, username, password, url)\<close>:
  the arguments are bound by position, as written.
\<close>

definition u_wayf ::
  "network \<Rightarrow> string \<Rightarrow> string \<Rightarrow> string \<Rightarrow> string \<Rightarrow> string \<Rightarrow> (string \<times> string) list py" where
  "u_wayf net username password domain entityID returnX =
     (if domain = [] then raise (ENTLoginError ''Missing domain attribute'')
      else
        let entityID = (if entityID = [] then domain @ ''/shibboleth'' else entityID);
            returnX = (if returnX = [] then domain @ ''/Shibboleth.sso/Login'' else returnX);
            ent_login_page = domain @ ''/discovery/WAYF''
        in
        bnd Session (\<lambda>session.
        let params = [(''entityID'', entityID), (''returnX'', returnX),
                      (''returnIDParam'', ''entityID''), (''action'', ''selection''),
                      (''origin'', ''https://_educonnect.education.gouv.fr/idp'')] in
        bnd (session_get net session ent_login_page params) (\<lambda>response.
        bnd (u_educonnect net (PyStr (rs_url response)) (PySession session)
               (PyStr username) (PyStr password)) (\<lambda>_.
        cookies session))))"

subsection \<open>\<^verbatim>\<open>_oze_ent\<close> (lines 283 to 327)\<close>

text \<open>
  \<^verbatim>\<open>urlparse(url).netloc\<close>, as \<^verbatim>\<open>urlsplit\<close> computes it. Leading characters up to
  the blank (code points 0 to 32) are stripped, and every TAB, CR and LF is removed.
  Then a scheme (a letter, then letters, digits, \<^verbatim>\<open>+\<close>, \<^verbatim>\<open>-\<close>, \<^verbatim>\<open>.\<close>, up to the first
  colon) is split off; if \<^verbatim>\<open>//\<close> follows, the network location runs to the first \<^verbatim>\<open>/\<close>,
  \<^verbatim>\<open>?\<close> or \<^verbatim>\<open>#\<close>; otherwise it is empty. The network location is the host together
  with the user information and the port, when the URL has them.

  \<^verbatim>\<open>urlsplit\<close> raises ValueError for some network locations that have a bracket or a
  character outside ASCII. That check is not modelled: \<open>plain_netloc\<close> below holds of the
  network locations that pass it, and the statement about the username of \<^verbatim>\<open>_oze_ent\<close>
  is made for those.
\<close>

definition c0_control_or_space :: "char \<Rightarrow> bool" where
  "c0_control_or_space c = (of_char c \<le> (32 :: nat))"

definition unsafe_url_byte :: "char \<Rightarrow> bool" where
  "unsafe_url_byte c = (c \<in> set [CHR 0x09, CHR 0x0D, CHR 0x0A])"

definition sanitize :: "string \<Rightarrow> string" where
  "sanitize url = filter (\<lambda>c. \<not> unsafe_url_byte c) (dropWhile c0_control_or_space url)"

definition letters :: string where
  "letters = ''abcdefghijklmnopqrstuvwxyzABCDEFGHIJKLMNOPQRSTUVWXYZ''"

definition scheme_chars :: string where
  "scheme_chars = letters @ ''0123456789+-.''"

definition strip_scheme :: "string \<Rightarrow> string" where
  "strip_scheme url =
     (let pre = takeWhile (\<lambda>c. c \<noteq> CHR '':'') url in
      if length pre < length url \<and> pre \<noteq> [] \<and> hd pre \<in> set letters
         \<and> list_all (\<lambda>c. c \<in> set scheme_chars) pre
      then drop (Suc (length pre)) url
      else url)"

definition netloc :: "string \<Rightarrow> string" where
  "netloc url =
     (let rest = strip_scheme (sanitize url) in
      if take 2 rest = ''//''
      then takeWhile (\<lambda>c. c \<notin> set ''/?#'') (drop 2 rest)
      else [])"

definition plain_netloc :: "string \<Rightarrow> bool" where
  "plain_netloc d = list_all (\<lambda>c. c \<notin> set ''[]'' \<and> of_char c < (128 :: nat)) d"

text \<open>\<^verbatim>\<open>domain in username\<close>: \<open>domain\<close> occurs in \<open>username\<close> as a contiguous substring.\<close>

fun contains :: "string \<Rightarrow> string \<Rightarrow> bool" where
  "contains [] sub = (sub = [])"
| "contains (c # cs) sub = (take (length sub) (c # cs) = sub \<or> contains cs sub)"

definition u_oze_ent ::
  "network \<Rightarrow> string \<Rightarrow> string \<Rightarrow> string \<Rightarrow> (string \<times> string) list py" where
  "u_oze_ent net username password url =
     (if url = [] then raise (ENTLoginError ''Missing url attribute'')
      else
        bnd Session (\<lambda>session.
        bnd (session_get net session url []) (\<lambda>response.
        let domain = netloc url;
            username = (if \<not> contains username domain then username @ ''@'' @ domain
                        else username);
            soup = rs_soup response;
            form = find_tag ''form'' [(''id'', ''auth_form'')] soup
        in case form of
             None \<Rightarrow> raise (AttributeError ''findAll'')
           | Some f \<Rightarrow>
               bnd (lift (form_inputs (findAll ''input'' f) [])) (\<lambda>payload.
               let payload = AList.update ''username'' (PyStr username) payload;
                   payload = AList.update ''password'' (PyStr password) payload in
               bnd (session_post net session (rs_url response) payload) (\<lambda>_.
               cookies session)))))"

subsection \<open>\<^verbatim>\<open>_simple_auth\<close> (lines 330 to 371)\<close>

definition u_simple_auth ::
  "network \<Rightarrow> string \<Rightarrow> string \<Rightarrow> string \<Rightarrow> (string \<times> string) list \<Rightarrow>
   (string \<times> string) list py" where
  "u_simple_auth net username password url form_attr =
     (if url = [] then raise (ENTLoginError ''Missing url attribute'')
      else
        bnd Session (\<lambda>session.
        bnd (session_get net session url []) (\<lambda>response.
        let soup = rs_soup response;
            form = find_tag ''form'' form_attr soup
        in case form of
             None \<Rightarrow> raise (AttributeError ''findAll'')
           | Some f \<Rightarrow>
               bnd (lift (form_inputs (findAll ''input'' f) [])) (\<lambda>payload.
               let payload = AList.update ''username'' (PyStr username) payload;
                   payload = AList.update ''password'' (PyStr password) payload in
               bnd (session_post net session (rs_url response) payload) (\<lambda>_.
               cookies session)))))"

section \<open>Vocabulary of the statements\<close>

text \<open>
  Forms: an input that has a \<open>name\<close> attribute, and
  the value of the last input of a list that carries a given name (what a dictionary
  filled in document order ends up holding for that name).
\<close>

definition has_name :: "node \<Rightarrow> bool" where
  "has_name i = (map_of (attrs i) ''name'' \<noteq> None)"

fun last_value :: "node list \<Rightarrow> string \<Rightarrow> pyobj option" where
  "last_value [] n = None"
| "last_value (i # rest) n =
     (case last_value rest n of
        Some v \<Rightarrow> Some v
      | None \<Rightarrow> if map_of (attrs i) ''name'' = Some n then Some (tag_get i ''value'') else None)"

text \<open>
  The three form procedures end alike, from the loop over the inputs of the form on. The
  shared ending, as a function of what \<^verbatim>\<open>soup.find\<close> returned and of the username that is
  submitted; the lemmas \<open>cas_run\<close>, \<open>oze_run\<close> and \<open>simple_auth_run\<close> below show that each
  procedure is its GET followed by this ending.
\<close>

definition submit_form ::
  "network \<Rightarrow> nat \<Rightarrow> response \<Rightarrow> node option \<Rightarrow> string \<Rightarrow> string \<Rightarrow> (string \<times> string) list py" where
  "submit_form net session response form username password =
     (case form of
        None \<Rightarrow> raise (AttributeError ''findAll'')
      | Some f \<Rightarrow>
          bnd (lift (form_inputs (findAll ''input'' f) [])) (\<lambda>payload.
          let payload = AList.update ''username'' (PyStr username) payload;
              payload = AList.update ''password'' (PyStr password) payload in
          bnd (session_post net session (rs_url response) payload) (\<lambda>_.
          cookies session)))"



text \<open>
  The first request of \<^verbatim>\<open>_open_ent_ng_edu\<close> and of \<^verbatim>\<open>_wayf\<close>, sent from a fresh session: the
  unsolicited-SSO endpoint with the provider id of the domain, and the discovery
  endpoint of the domain with its five parameters.
\<close>

definition sso_get :: "string \<Rightarrow> request" where
  "sso_get domain =
     get_request ''https://educonnect.education.gouv.fr/idp/profile/SAML2/Unsolicited/SSO''
       [(''providerId'', domain @ ''/auth/saml/metadata/idp.xml'')] []"

definition wayf_get :: "string \<Rightarrow> string \<Rightarrow> string \<Rightarrow> request" where
  "wayf_get domain entityID returnX =
     get_request (domain @ ''/discovery/WAYF'')
       [(''entityID'', if entityID = [] then domain @ ''/shibboleth'' else entityID),
        (''returnX'', if returnX = [] then domain @ ''/Shibboleth.sso/Login'' else returnX),
        (''returnIDParam'', ''entityID''), (''action'', ''selection''),
        (''origin'', ''https://_educonnect.education.gouv.fr/idp'')] []"

section \<open>Example servers\<close>

text \<open>Concrete worlds, servers and pages, on which the theorems below are evaluated.\<close>

definition w0 :: world where
  "w0 = \<lparr>w_trace = [], w_jars = (\<lambda>_. []), w_next = 0\<rparr>"

text \<open>A server that answers every request with an empty page and status 500.\<close>

definition net500 :: network where
  "net500 tr rq =
     Some \<lparr>rs_url = rq_url rq, rs_status = 500, rs_soup = [], rs_cookies = [(''sid'', ''1'')]\<rparr>"

text \<open>A server that answers every request with one page, at one final URL.\<close>

definition serve :: "string \<Rightarrow> node list \<Rightarrow> network" where
  "serve final_url page tr rq =
     Some \<lparr>rs_url = final_url, rs_status = 200, rs_soup = page,
           rs_cookies = [(''JSESSIONID'', ''abc'')]\<rparr>"

text \<open>
  An identity provider: the login URL answers with a page that carries a SAML assertion
  in a form; every other URL answers with a plain page.
\<close>

definition saml_page :: "node list" where
  "saml_page =
     [Tag ''html'' []
        [Tag ''body'' []
           [Tag ''form'' [(''action'', ''https://ent.example/saml/acs''), (''method'', ''post'')]
              [Tag ''input''
                 [(''type'', ''hidden''), (''name'', ''RelayState''), (''value'', ''rs-1'')] [],
               Tag ''input''
                 [(''type'', ''hidden''), (''name'', ''SAMLResponse''), (''value'', ''assertion'')]
                 []]]]]"

definition idp_net :: network where
  "idp_net tr rq =
     (if rq_url rq = ''https://idp.example/login''
      then Some \<lparr>rs_url = ''https://idp.example/login'', rs_status = 200,
                  rs_soup = saml_page, rs_cookies = [(''idp'', ''7'')]\<rparr>
      else Some \<lparr>rs_url = rq_url rq, rs_status = 200,
                  rs_soup = [Tag ''title'' [] [NavigableString ''Accueil'']],
                  rs_cookies = [(''ent'', ''9'')]\<rparr>)"

text \<open>A login page of an Oze portal.\<close>

definition oze_page :: "node list" where
  "oze_page =
     [Tag ''html'' []
        [Tag ''body'' []
           [Tag ''form'' [(''id'', ''auth_form''), (''action'', ''/auth/check'')]
              [Tag ''input'' [(''type'', ''hidden''), (''name'', ''csrf''), (''value'', ''t0k'')] [],
               Tag ''input'' [(''type'', ''text''), (''name'', ''username'')] [],
               Tag ''input'' [(''type'', ''password''), (''name'', ''password'')] []]]]]"

text \<open>
  A CAS login page: a search form, then the login form, which carries two classes. And a
  login form in which two inputs share a name.
\<close>

definition cas_form :: node where
  "cas_form =
     Tag ''form'' [(''id'', ''fm1''), (''class'', ''cas__login-form fm-v''), (''action'', ''/cas/login;jsessionid=1'')]
       [Tag ''input'' [(''type'', ''hidden''), (''name'', ''lt''), (''value'', ''LT-1'')] [],
        Tag ''input'' [(''type'', ''hidden''), (''name'', ''execution''), (''value'', ''e1s1'')] [],
        Tag ''input'' [(''type'', ''text''), (''name'', ''username'')] [],
        Tag ''input'' [(''type'', ''password''), (''name'', ''password'')] []]"

definition cas_page :: "node list" where
  "cas_page = [Tag ''html'' [] [Tag ''body'' [] [Tag ''form'' [(''id'', ''search'')] [], cas_form]]]"

definition dup_form :: node where
  "dup_form =
     Tag ''form'' [(''class'', ''cas__login-form'')]
       [Tag ''input'' [(''type'', ''hidden''), (''name'', ''lt''), (''value'', ''A'')] [],
        Tag ''input'' [(''type'', ''hidden''), (''name'', ''lt''), (''value'', ''B'')] []]"

definition dup_page :: "node list" where
  "dup_page = [Tag ''html'' [] [Tag ''body'' [] [dup_form]]]"

text \<open>
  The login page of a portal that starts a SAML handshake: the form posts a request to
  the identity provider.
\<close>

definition sso_page :: "node list" where
  "sso_page =
     [Tag ''html'' []
        [Tag ''body'' []
           [Tag ''form'' [(''action'', ''https://idp.example/idp/SSO''), (''method'', ''post'')]
              [Tag ''input'' [(''type'', ''hidden''), (''name'', ''RelayState''), (''value'', ''ss:mem:1'')] [],
               Tag ''input'' [(''type'', ''hidden''), (''name'', ''SAMLRequest''), (''value'', ''request'')] []]]]]"


section \<open>Properties\<close>

lemma bnd_ret [simp]: "bnd (ret x) f = f x"
  by (simp add: bnd_def ret_def fun_eq_iff)

lemma bnd_raise [simp]: "bnd (raise e) f = raise e"
  by (simp add: bnd_def raise_def fun_eq_iff)

lemma bnd_lift_Inr [simp]: "bnd (lift (Inr x)) f = f x"
  by (simp add: bnd_def lift_def fun_eq_iff)

lemma bnd_lift_Inl [simp]: "bnd (lift (Inl e)) f = raise e"
  by (simp add: bnd_def lift_def raise_def fun_eq_iff)

subsection \<open>The session and the HTTP client\<close>

lemma fresh_session_sel [simp]:
  "w_trace (fresh_session w) = w_trace w"
  "w_jars (fresh_session w) = (w_jars w)(w_next w := [])"
  "w_next (fresh_session w) = Suc (w_next w)"
  by (simp_all add: fresh_session_def)

lemma exchange_sel [simp]:
  "w_trace (exchange s rq rs w) = w_trace w @ [rq]"
  "w_jars (exchange s rq rs w) = (w_jars w)(s := set_cookies (rs_cookies rs) (w_jars w s))"
  "w_next (exchange s rq rs w) = w_next w"
  by (simp_all add: exchange_def)

lemma failed_exchange_sel [simp]:
  "w_trace (failed_exchange rq w) = w_trace w @ [rq]"
  "w_jars (failed_exchange rq w) = w_jars w"
  "w_next (failed_exchange rq w) = w_next w"
  by (simp_all add: failed_exchange_def)

lemma bnd_Session: "bnd Session f w = f (w_next w) (fresh_session w)"
  by (simp add: bnd_def Session_def)

lemma bnd_session_post:
  "bnd (session_post net s url payload) f w =
     (case net (w_trace w) (post_request url payload (w_jars w s)) of
        None \<Rightarrow>
          (Inl RequestException, failed_exchange (post_request url payload (w_jars w s)) w)
      | Some rs \<Rightarrow> f rs (exchange s (post_request url payload (w_jars w s)) rs w))"
  by (simp add: bnd_def session_post_def send_def split: option.splits)

lemma bnd_session_get:
  "bnd (session_get net s url params) f w =
     (case net (w_trace w) (get_request url params (w_jars w s)) of
        None \<Rightarrow>
          (Inl RequestException, failed_exchange (get_request url params (w_jars w s)) w)
      | Some rs \<Rightarrow> f rs (exchange s (get_request url params (w_jars w s)) rs w))"
  by (simp add: bnd_def session_get_def send_def split: option.splits)

subsection \<open>C4: an empty target raises before any request\<close>

text \<open>
  C4. Every one of the eight procedures, called with an empty url (or an empty domain,
  for the two that take one), raises ENTLoginError and leaves the world as it found it:
  no request is recorded, no session is created.
\<close>

theorem empty_target_raises_without_request:
  "u_educonnect net session user pass (PyStr []) w =
     (Inl (ENTLoginError ''Missing url attribute''), w)
   \<and> u_cas_edu educonnect net username password [] w =
     (Inl (ENTLoginError ''Missing url attribute''), w)
   \<and> u_cas net username password [] w =
     (Inl (ENTLoginError ''Missing url attribute''), w)
   \<and> u_open_ent_ng_edu educonnect open_ent_ng net username password [] w =
     (Inl (ENTLoginError ''Missing domain attribute''), w)
   \<and> u_open_ent_ng net username password [] w =
     (Inl (ENTLoginError ''Missing url attribute''), w)
   \<and> u_wayf net username password [] entityID returnX w =
     (Inl (ENTLoginError ''Missing domain attribute''), w)
   \<and> u_oze_ent net username password [] w =
     (Inl (ENTLoginError ''Missing url attribute''), w)
   \<and> u_simple_auth net username password [] form_attr w =
     (Inl (ENTLoginError ''Missing url attribute''), w)"
  by (simp add: u_educonnect_def u_cas_edu_def u_cas_def u_open_ent_ng_edu_def
      u_open_ent_ng_def u_wayf_def u_oze_ent_def u_simple_auth_def raise_def)

theorem empty_target_raises_without_request_witness:
  "fst (u_cas net500 ''alice'' ''secret'' [] w0) = Inl (ENTLoginError ''Missing url attribute'')
   \<and> w_trace (snd (u_cas net500 ''alice'' ''secret'' [] w0)) = []
   \<and> fst (u_wayf net500 ''alice'' ''secret'' [] [] [] w0) =
       Inl (ENTLoginError ''Missing domain attribute'')
   \<and> w_trace (snd (u_wayf net500 ''alice'' ''secret'' [] [] [] w0)) = []"
  using empty_target_raises_without_request
    [of net500 PyNone PyNone PyNone w0 None "''alice''" "''secret''" None "[]" "[]" "[]"]
  by (simp add: w0_def)

subsection \<open>C9: the direct Open-ENT-NG login\<close>

text \<open>
  C9. For a non-empty url, \<^verbatim>\<open>_open_ent_ng\<close> makes exactly one call on the HTTP client: a
  POST to the url whose payload maps \<open>email\<close> to the username and \<open>password\<close> to the
  password, sent from a fresh session. Whatever response comes back (any status, any
  page), the procedure returns the cookie jar of its session, which holds the cookies
  of that response.
\<close>

theorem open_ent_ng_single_post:
  assumes "url \<noteq> []"
  shows "w_trace (snd (u_open_ent_ng net username password url w)) =
           w_trace w @
           [post_request url [(''email'', PyStr username), (''password'', PyStr password)] []]
         \<and> (\<forall>rs. net (w_trace w)
                   (post_request url
                      [(''email'', PyStr username), (''password'', PyStr password)] []) = Some rs
               \<longrightarrow> fst (u_open_ent_ng net username password url w) =
                     Inr (set_cookies (rs_cookies rs) [])
                 \<and> fst (u_open_ent_ng net username password url w) =
                     Inr (w_jars (snd (u_open_ent_ng net username password url w)) (w_next w)))"
  using assms
  by (simp add: u_open_ent_ng_def bnd_Session bnd_session_post cookies_def
      split: option.splits)

theorem open_ent_ng_single_post_witness:
  "fst (u_open_ent_ng net500 ''alice'' ''secret'' ''https://ent.example/auth/login'' w0) =
     Inr [(''sid'', ''1'')]
   \<and> w_trace (snd (u_open_ent_ng net500 ''alice'' ''secret'' ''https://ent.example/auth/login'' w0)) =
       [post_request ''https://ent.example/auth/login''
          [(''email'', PyStr ''alice''), (''password'', PyStr ''secret'')] []]"
  using open_ent_ng_single_post
    [of "''https://ent.example/auth/login''" net500 "''alice''" "''secret''" w0]
  by (simp add: net500_def w0_def set_cookies_def)

lemma post_request_sel [simp]:
  "rq_method (post_request url payload jar) = POST"
  "rq_url (post_request url payload jar) = url"
  "rq_params (post_request url payload jar) = []"
  "rq_headers (post_request url payload jar) = HEADERS"
  "rq_data (post_request url payload jar) = payload"
  "rq_cookies (post_request url payload jar) = jar"
  by (simp_all add: post_request_def)

lemma get_request_sel [simp]:
  "rq_method (get_request url params jar) = GET"
  "rq_url (get_request url params jar) = url"
  "rq_params (get_request url params jar) = params"
  "rq_headers (get_request url params jar) = HEADERS"
  "rq_data (get_request url params jar) = []"
  "rq_cookies (get_request url params jar) = jar"
  by (simp_all add: get_request_def)

lemma post_request_eq [simp]:
  "post_request url payload jar = post_request url' payload' jar' \<longleftrightarrow>
     url = url' \<and> payload = payload' \<and> jar = jar'"
  by (auto simp add: post_request_def)

lemma get_request_eq [simp]:
  "get_request url params jar = get_request url' params' jar' \<longleftrightarrow>
     url = url' \<and> params = params' \<and> jar = jar'"
  by (auto simp add: get_request_def)

lemma get_post_neq [simp]:
  "get_request url params jar \<noteq> post_request url' payload jar'"
  "post_request url' payload jar' \<noteq> get_request url params jar"
  by (simp_all add: get_request_def post_request_def)

lemma bnd_post_on:
  "bnd (post_on net (PySession s) (PyStr url) payload) f = bnd (session_post net s url payload) f"
  by (simp add: post_on_def)

subsection \<open>C5: the EduConnect relay\<close>

text \<open>
  C5. \<^verbatim>\<open>_educonnect\<close>, called on a session with a non-empty url, first posts the
  credentials to the url. Let the answer be \<open>rs\<close>.
  \<^item> If the page of \<open>rs\<close> has no input named SAMLResponse, the relay returns \<^verbatim>\<open>None\<close> and
    the credentials POST is the only request it made.
  \<^item> If the page has an input named SAMLResponse with value \<open>saml\<close>, and a form whose
    action is \<open>action\<close>, the relay makes exactly one more request: a POST to \<open>action\<close>
    whose payload is SAMLResponse = \<open>saml\<close>, together with RelayState = \<open>relay\<close> when
    the page has an input named RelayState (with value \<open>relay\<close>). It returns the
    response to that POST.
\<close>

theorem educonnect_relay_follow_up:
  assumes url: "url \<noteq> []"
    and first: "net (w_trace w)
                  (post_request url
                     [(''j_username'', username), (''j_password'', password),
                      (''_eventId_proceed'', PyStr [])] (w_jars w s)) = Some rs"
  shows "let rq1 = post_request url
                     [(''j_username'', username), (''j_password'', password),
                      (''_eventId_proceed'', PyStr [])] (w_jars w s);
             jar1 = set_cookies (rs_cookies rs) (w_jars w s);
             soup = rs_soup rs;
             result = u_educonnect net (PySession s) username password (PyStr url) w
         in (find_tag ''input'' [(''name'', ''SAMLResponse'')] soup = None \<longrightarrow>
               fst result = Inr None \<and> w_trace (snd result) = w_trace w @ [rq1])
          \<and> (find_tag ''input'' [(''name'', ''SAMLResponse'')] soup = Some tag
              \<and> map_of (attrs tag) ''value'' = Some saml
              \<and> find_tag ''form'' [] soup = Some form
              \<and> map_of (attrs form) ''action'' = Some action
              \<and> find_tag ''input'' [(''name'', ''RelayState'')] soup = None \<longrightarrow>
                w_trace (snd result) =
                  w_trace w @ [rq1, post_request action [(''SAMLResponse'', PyStr saml)] jar1]
              \<and> fst result =
                  (case net (w_trace w @ [rq1])
                          (post_request action [(''SAMLResponse'', PyStr saml)] jar1) of
                     None \<Rightarrow> Inl RequestException
                   | Some rs2 \<Rightarrow> Inr (Some rs2)))
          \<and> (find_tag ''input'' [(''name'', ''SAMLResponse'')] soup = Some tag
              \<and> map_of (attrs tag) ''value'' = Some saml
              \<and> find_tag ''form'' [] soup = Some form
              \<and> map_of (attrs form) ''action'' = Some action
              \<and> find_tag ''input'' [(''name'', ''RelayState'')] soup = Some rtag
              \<and> map_of (attrs rtag) ''value'' = Some relay \<longrightarrow>
                w_trace (snd result) =
                  w_trace w @
                  [rq1, post_request action
                          [(''SAMLResponse'', PyStr saml), (''RelayState'', PyStr relay)] jar1]
              \<and> fst result =
                  (case net (w_trace w @ [rq1])
                          (post_request action
                             [(''SAMLResponse'', PyStr saml), (''RelayState'', PyStr relay)] jar1) of
                     None \<Rightarrow> Inl RequestException
                   | Some rs2 \<Rightarrow> Inr (Some rs2)))"
  using assms
  unfolding Let_def
  apply (intro conjI allI impI)
      apply (simp_all add: u_educonnect_def bnd_post_on bnd_session_post getitem_def Let_def)
      apply (simp_all add: ret_def split: option.splits sum.splits)
  done

theorem educonnect_relay_follow_up_witness:
  "w_trace (snd (u_educonnect idp_net (PySession 0) (PyStr ''alice'') (PyStr ''secret'')
                   (PyStr ''https://idp.example/login'') w0)) =
     [post_request ''https://idp.example/login''
        [(''j_username'', PyStr ''alice''), (''j_password'', PyStr ''secret''),
         (''_eventId_proceed'', PyStr [])] [],
      post_request ''https://ent.example/saml/acs''
        [(''SAMLResponse'', PyStr ''assertion''), (''RelayState'', PyStr ''rs-1'')]
        [(''idp'', ''7'')]]
   \<and> fst (u_educonnect idp_net (PySession 0) (PyStr ''alice'') (PyStr ''secret'')
            (PyStr ''https://ent.example/other'') w0) = Inr None"
  using educonnect_relay_follow_up [of "''https://idp.example/login''" idp_net w0 "PyStr ''alice''" "PyStr ''secret''" 0
              "\<lparr>rs_url = ''https://idp.example/login'', rs_status = 200, rs_soup = saml_page,
                  rs_cookies = [(''idp'', ''7'')]\<rparr>"
              "Tag ''input'' [(''type'', ''hidden''), (''name'', ''SAMLResponse''), (''value'', ''assertion'')] []"
              "''assertion''"
              "Tag ''form'' [(''action'', ''https://ent.example/saml/acs''), (''method'', ''post'')]
              [Tag ''input'' [(''type'', ''hidden''), (''name'', ''RelayState''), (''value'', ''rs-1'')] [],
               Tag ''input'' [(''type'', ''hidden''), (''name'', ''SAMLResponse''), (''value'', ''assertion'')] []]"
              "''https://ent.example/saml/acs''"
              "Tag ''input'' [(''type'', ''hidden''), (''name'', ''RelayState''), (''value'', ''rs-1'')] []"
              "''rs-1''"]
        educonnect_relay_follow_up [of "''https://ent.example/other''" idp_net w0 "PyStr ''alice''" "PyStr ''secret''" 0
              "\<lparr>rs_url = ''https://ent.example/other'', rs_status = 200,
                  rs_soup = [Tag ''title'' [] [NavigableString ''Accueil'']],
                  rs_cookies = [(''ent'', ''9'')]\<rparr>"]
  by (simp add: idp_net_def w0_def Let_def saml_page_def set_cookies_def find_tag_def
      matches_def attr_matches_def cdata_list_attribute_def)

subsection \<open>The form loop\<close>

lemma form_inputs_total:
  "list_all has_name inputs \<Longrightarrow> \<exists>p. form_inputs inputs acc = Inr p"
  by (induction inputs arbitrary: acc) (auto simp add: has_name_def)


lemma form_inputs_map_of:
  "form_inputs inputs acc = Inr p \<Longrightarrow>
     map_of p n = (case last_value inputs n of Some v \<Rightarrow> Some v | None \<Rightarrow> map_of acc n)"
proof (induction inputs arbitrary: acc)
  case Nil
  then show ?case by simp
next
  case (Cons i rest)
  then show ?case
    by (auto simp add: update_conv' split: option.splits)
qed

lemma form_inputs_distinct:
  "form_inputs inputs acc = Inr p \<Longrightarrow> distinct (map fst acc) \<Longrightarrow> distinct (map fst p)"
  by (induction inputs arbitrary: acc) (auto simp add: distinct_update split: option.splits)

lemma last_value_None:
  "last_value inputs n = None \<longleftrightarrow> Some n \<notin> set (map (\<lambda>i. map_of (attrs i) ''name'') inputs)"
  by (induction inputs) (auto split: option.splits)

lemma last_value_distinct:
  "distinct (map (\<lambda>i. map_of (attrs i) ''name'') inputs) \<Longrightarrow> i \<in> set inputs \<Longrightarrow>
   map_of (attrs i) ''name'' = Some n \<Longrightarrow> last_value inputs n = Some (tag_get i ''value'')"
proof (induction inputs)
  case Nil
  then show ?case by simp
next
  case (Cons j rest)
  show ?case
  proof (cases "i \<in> set rest")
    case True
    with Cons show ?thesis by simp
  next
    case False
    with Cons.prems have ij: "i = j" by simp
    from Cons.prems ij have "Some n \<notin> set (map (\<lambda>i. map_of (attrs i) ''name'') rest)"
      by auto
    then have "last_value rest n = None" by (simp add: last_value_None)
    with Cons.prems ij show ?thesis by simp
  qed
qed

lemma submit_form_run:
  assumes "form_inputs (findAll ''input'' f) [] = Inr flds"
  shows "submit_form net s rs (Some f) username password w =
     (let payload = AList.update ''password'' (PyStr password)
                      (AList.update ''username'' (PyStr username) flds);
          rq = post_request (rs_url rs) payload (w_jars w s)
      in case net (w_trace w) rq of
           None \<Rightarrow> (Inl RequestException, failed_exchange rq w)
         | Some rs2 \<Rightarrow>
             (Inr (set_cookies (rs_cookies rs2) (w_jars w s)), exchange s rq rs2 w))"
  using assms
  by (simp add: submit_form_def bnd_session_post cookies_def Let_def split: option.splits)

lemma submit_form_trace:
  assumes "list_all has_name (findAll ''input'' f)"
  shows "\<exists>payload.
           w_trace (snd (submit_form net s rs (Some f) username password w)) =
             w_trace w @ [post_request (rs_url rs) payload (w_jars w s)]
         \<and> map_of payload =
             (last_value (findAll ''input'' f))
               (''username'' \<mapsto> PyStr username, ''password'' \<mapsto> PyStr password)
         \<and> distinct (map fst payload)"
proof -
  from form_inputs_total [OF assms] obtain flds
    where flds: "form_inputs (findAll ''input'' f) [] = Inr flds" by blast
  let ?payload = "AList.update ''password'' (PyStr password)
                    (AList.update ''username'' (PyStr username) flds)"
  have tr: "w_trace (snd (submit_form net s rs (Some f) username password w)) =
             w_trace w @ [post_request (rs_url rs) ?payload (w_jars w s)]"
    by (simp add: submit_form_run [OF flds] Let_def split: option.splits)
  have "map_of flds = last_value (findAll ''input'' f)"
    using form_inputs_map_of [OF flds] by (auto simp add: fun_eq_iff split: option.splits)
  then have m: "map_of ?payload =
             (last_value (findAll ''input'' f))
               (''username'' \<mapsto> PyStr username, ''password'' \<mapsto> PyStr password)"
    by (simp add: update_conv')
  have d: "distinct (map fst ?payload)"
    using form_inputs_distinct [OF flds] by (simp add: distinct_update)
  from tr m d show ?thesis by blast
qed

subsection \<open>C6: the username of the Oze login\<close>

lemma oze_run:
  assumes "url \<noteq> []" and "net (w_trace w) (get_request url [] []) = Some rs"
  shows "u_oze_ent net username password url w =
           submit_form net (w_next w) rs (find_tag ''form'' [(''id'', ''auth_form'')] (rs_soup rs))
             (if contains username (netloc url) then username else username @ ''@'' @ netloc url)
             password
             (exchange (w_next w) (get_request url [] []) rs (fresh_session w))"
  using assms
  by (simp add: u_oze_ent_def submit_form_def bnd_Session bnd_session_get Let_def
      split: option.splits)

lemma contains_iff: "contains u d \<longleftrightarrow> (\<exists>a b. u = a @ d @ b)"
proof (induction u)
  case Nil
  then show ?case by simp
next
  case (Cons c cs)
  show ?case
  proof
    assume "contains (c # cs) d"
    then consider "take (length d) (c # cs) = d" | "contains cs d" by auto
    then show "\<exists>a b. c # cs = a @ d @ b"
    proof cases
      case 1
      then have "c # cs = [] @ d @ drop (length d) (c # cs)"
        by (metis append_Nil append_take_drop_id)
      then show ?thesis by blast
    next
      case 2
      with Cons.IH obtain a b where "cs = a @ d @ b" by blast
      then have "c # cs = (c # a) @ d @ b" by simp
      then show ?thesis by blast
    qed
  next
    assume "\<exists>a b. c # cs = a @ d @ b"
    then obtain a b where ab: "c # cs = a @ d @ b" by blast
    show "contains (c # cs) d"
    proof (cases a)
      case Nil
      with ab have "take (length d) (c # cs) = d" by simp
      then show ?thesis by simp
    next
      case (Cons x a')
      with ab have "cs = a' @ d @ b" by simp
      with Cons.IH have "contains cs d" by blast
      then show ?thesis by simp
    qed
  qed
qed

text \<open>The network location of some urls, among them one with a leading blank.\<close>

lemma netloc_example: "netloc ''https://oze.example.com/login'' = ''oze.example.com''"
  by (simp add: netloc_def sanitize_def c0_control_or_space_def unsafe_url_byte_def
      strip_scheme_def letters_def scheme_chars_def)

lemma netloc_blank_example: "netloc '' https://oze.example.com/login'' = ''oze.example.com''"
  by (simp add: netloc_def sanitize_def c0_control_or_space_def unsafe_url_byte_def
      strip_scheme_def letters_def scheme_chars_def)

lemma netloc_port_example: "netloc ''https://oze.example.com:8443/login'' = ''oze.example.com:8443''"
  by (simp add: netloc_def sanitize_def c0_control_or_space_def unsafe_url_byte_def
      strip_scheme_def letters_def scheme_chars_def)

lemma netloc_tab_example:
  "netloc [CHR ''h'', CHR ''t'', CHR 0x0A, CHR ''t'', CHR ''p'', CHR '':'', CHR ''/'', CHR ''/'', CHR ''a'', CHR 0x09, CHR ''b'', CHR ''/'', CHR ''c''] = ''ab''"
  by (simp add: netloc_def sanitize_def c0_control_or_space_def unsafe_url_byte_def
      strip_scheme_def letters_def scheme_chars_def)

lemma netloc_digit_example: "netloc ''1https://x/y'' = []"
  by (simp add: netloc_def sanitize_def c0_control_or_space_def unsafe_url_byte_def
      strip_scheme_def letters_def scheme_chars_def)

lemma plain_example: "plain_netloc ''oze.example.com''"
  by (simp add: plain_netloc_def)

lemma scheme_char_facts:
  assumes "c \<in> set scheme_chars"
  shows "\<not> unsafe_url_byte c" and "c \<noteq> CHR '':''"
  using assms by (auto simp add: scheme_chars_def letters_def unsafe_url_byte_def)

lemma letter_facts:
  assumes "c \<in> set letters"
  shows "\<not> c0_control_or_space c"
  using assms by (auto simp add: letters_def c0_control_or_space_def)

lemma netloc_of_host:
  assumes s: "scheme \<noteq> []" "hd scheme \<in> set letters"
      "list_all (\<lambda>c. c \<in> set scheme_chars) scheme"
    and h: "list_all (\<lambda>c. c \<notin> set ''/?#'' \<and> \<not> unsafe_url_byte c) host"
    and r: "rest = [] \<or> hd rest \<in> set ''/?#''"
  shows "netloc (scheme @ ''://'' @ host @ rest) = host"
proof -
  obtain x xs where sch: "scheme = x # xs" using s(1) by (cases scheme) auto
  define rest' where "rest' = filter (\<lambda>c. \<not> unsafe_url_byte c) rest"
  define url where "url = scheme @ ''://'' @ host @ rest"
  define clean where "clean = scheme @ ''://'' @ host @ rest'"
  define tail where "tail = ''//'' @ host @ rest'"
  have safe: "\<forall>c\<in>set scheme. \<not> unsafe_url_byte c" and nocolon: "\<forall>c\<in>set scheme. c \<noteq> CHR '':''"
    using s(3) scheme_char_facts by (auto simp add: list_all_iff)
  have hsafe: "\<forall>c\<in>set host. \<not> unsafe_url_byte c" and hdelim: "\<forall>c\<in>set host. c \<notin> set ''/?#''"
    using h by (auto simp add: list_all_iff)
  have "dropWhile c0_control_or_space url = url"
    using sch s(2) letter_facts by (simp add: url_def)
  moreover have "filter (\<lambda>c. \<not> unsafe_url_byte c) scheme = scheme"
    using safe by (simp add: filter_id_conv)
  moreover have "filter (\<lambda>c. \<not> unsafe_url_byte c) host = host"
    using hsafe by (simp add: filter_id_conv)
  ultimately have san: "sanitize url = clean"
    by (simp add: sanitize_def unsafe_url_byte_def url_def clean_def rest'_def)
  have cl: "clean = scheme @ CHR '':'' # tail"
    by (simp add: clean_def tail_def)
  have tw: "takeWhile (\<lambda>c. c \<noteq> CHR '':'') clean = scheme"
    using nocolon by (simp add: cl takeWhile_append2)
  have st: "strip_scheme clean = tail"
    using s by (simp add: strip_scheme_def tw Let_def) (simp add: cl)
  have r': "rest' = [] \<or> hd rest' \<in> set ''/?#''"
  proof (cases rest)
    case Nil
    then show ?thesis by (simp add: rest'_def)
  next
    case (Cons y ys)
    with r have y: "y \<in> set ''/?#''" by simp
    then have "\<not> unsafe_url_byte y" by (auto simp add: unsafe_url_byte_def)
    with Cons y show ?thesis by (simp add: rest'_def)
  qed
  have tk: "takeWhile (\<lambda>c. c \<notin> set ''/?#'') (host @ rest') = host"
  proof (cases rest')
    case Nil
    then show ?thesis using hdelim by (simp add: takeWhile_eq_all_conv)
  next
    case (Cons y ys)
    with r' have "y \<in> set ''/?#''" by simp
    with Cons hdelim show ?thesis by (simp add: takeWhile_append2)
  qed
  have t2: "take 2 tail = ''//''" and d2: "drop 2 tail = host @ rest'"
    by (simp_all add: tail_def)
  have "netloc url = host"
    unfolding netloc_def san st Let_def t2 d2 using tk by simp
  then show ?thesis by (simp only: url_def)
qed

text \<open>
  C6. Let \<^verbatim>\<open>_oze_ent\<close> be called with a url whose network location \<^verbatim>\<open>urlparse\<close> accepts, and
  let it fetch a page that has the form with id \<open>auth_form\<close>, whose inputs all have a
  name. Then it makes two requests, the GET of the url and a POST to the final URL of the
  fetched page, and the \<open>username\<close> field of the POSTed payload is
  \<^item> the username itself, when the network location of the url occurs in the username
    (as a contiguous part of it);
  \<^item> the username followed by \<open>@\<close> and the network location, when it does not.
  For a url made of a scheme, \<open>://\<close>, a host (no user information, no port), and then
  nothing or a part that starts with \<open>/\<close>, \<open>?\<close> or \<open>#\<close>, the network location is the
  host: the field is the username when the host occurs in it, and the username followed
  by \<open>@\<close> and the host otherwise. For username \<open>alice\<close> and url
  \<open>https://oze.example.com/login\<close> the field is \<open>alice@oze.example.com\<close>.
\<close>

theorem oze_username_suffix:
  assumes "url \<noteq> []"
    and "plain_netloc (netloc url)"
    and "net (w_trace w) (get_request url [] []) = Some rs"
    and "find_tag ''form'' [(''id'', ''auth_form'')] (rs_soup rs) = Some form"
    and "list_all has_name (findAll ''input'' form)"
  shows "\<exists>payload.
           w_trace (snd (u_oze_ent net username password url w)) =
             w_trace w @ [get_request url [] [],
                          post_request (rs_url rs) payload (set_cookies (rs_cookies rs) [])]
         \<and> ((\<exists>a b. username = a @ netloc url @ b) \<longrightarrow>
              map_of payload ''username'' = Some (PyStr username))
         \<and> (\<not> (\<exists>a b. username = a @ netloc url @ b) \<longrightarrow>
              map_of payload ''username'' = Some (PyStr (username @ ''@'' @ netloc url)))
         \<and> (url = scheme @ ''://'' @ host @ rest
            \<and> scheme \<noteq> [] \<and> hd scheme \<in> set letters
            \<and> list_all (\<lambda>c. c \<in> set scheme_chars) scheme
            \<and> list_all (\<lambda>c. c \<notin> set ''/?#@:'' \<and> c \<notin> set [CHR 0x09, CHR 0x0D, CHR 0x0A]) host
            \<and> (rest = [] \<or> hd rest \<in> set ''/?#'') \<longrightarrow>
              map_of payload ''username'' =
                Some (PyStr (if \<exists>a b. username = a @ host @ b then username
                             else username @ ''@'' @ host)))
         \<and> (username = ''alice'' \<and> url = ''https://oze.example.com/login'' \<longrightarrow>
              map_of payload ''username'' = Some (PyStr ''alice@oze.example.com''))"
proof -
  let ?u = "if contains username (netloc url) then username else username @ ''@'' @ netloc url"
  let ?w1 = "exchange (w_next w) (get_request url [] []) rs (fresh_session w)"
  from submit_form_trace [OF assms(5), of net "w_next w" rs ?u password ?w1]
  obtain payload where
    tr: "w_trace (snd (submit_form net (w_next w) rs (Some form) ?u password ?w1)) =
           w_trace ?w1 @ [post_request (rs_url rs) payload (w_jars ?w1 (w_next w))]"
    and m: "map_of payload =
             (last_value (findAll ''input'' form))(''username'' \<mapsto> PyStr ?u, ''password'' \<mapsto> PyStr password)"
    by blast
  have run: "u_oze_ent net username password url w =
               submit_form net (w_next w) rs (Some form) ?u password ?w1"
    using oze_run [where net = net and w = w, OF assms(1,3)] assms(4) by simp
  have t: "w_trace (snd (u_oze_ent net username password url w)) =
             w_trace w @ [get_request url [] [],
                          post_request (rs_url rs) payload (set_cookies (rs_cookies rs) [])]"
    using tr run by simp
  have u: "map_of payload ''username'' =
             Some (PyStr (if \<exists>a b. username = a @ netloc url @ b then username
                          else username @ ''@'' @ netloc url))"
    using m by (simp add: contains_iff)
  have yes: "(\<exists>a b. username = a @ netloc url @ b) \<longrightarrow>
              map_of payload ''username'' = Some (PyStr username)"
    using u by simp
  have no: "\<not> (\<exists>a b. username = a @ netloc url @ b) \<longrightarrow>
              map_of payload ''username'' = Some (PyStr (username @ ''@'' @ netloc url))"
    using u by simp
  have shape: "url = scheme @ ''://'' @ host @ rest
            \<and> scheme \<noteq> [] \<and> hd scheme \<in> set letters
            \<and> list_all (\<lambda>c. c \<in> set scheme_chars) scheme
            \<and> list_all (\<lambda>c. c \<notin> set ''/?#@:'' \<and> c \<notin> set [CHR 0x09, CHR 0x0D, CHR 0x0A]) host
            \<and> (rest = [] \<or> hd rest \<in> set ''/?#'') \<longrightarrow>
              map_of payload ''username'' =
                Some (PyStr (if \<exists>a b. username = a @ host @ b then username
                             else username @ ''@'' @ host))"
  proof
    assume h: "url = scheme @ ''://'' @ host @ rest
            \<and> scheme \<noteq> [] \<and> hd scheme \<in> set letters
            \<and> list_all (\<lambda>c. c \<in> set scheme_chars) scheme
            \<and> list_all (\<lambda>c. c \<notin> set ''/?#@:'' \<and> c \<notin> set [CHR 0x09, CHR 0x0D, CHR 0x0A]) host
            \<and> (rest = [] \<or> hd rest \<in> set ''/?#'')"
    then have "list_all (\<lambda>c. c \<notin> set ''/?#'' \<and> \<not> unsafe_url_byte c) host"
      by (auto simp add: unsafe_url_byte_def list_all_iff)
    with h have "netloc (scheme @ ''://'' @ host @ rest) = host"
      using netloc_of_host [of scheme host rest] by blast
    with h have "netloc url = host" by simp
    with u show "map_of payload ''username'' =
                Some (PyStr (if \<exists>a b. username = a @ host @ b then username
                             else username @ ''@'' @ host))"
      by simp
  qed
  have nothere: "\<not> (\<exists>a b. ''alice'' = a @ ''oze.example.com'' @ b)"
    using contains_iff [of "''alice''" "''oze.example.com''"] by simp
  have ex: "username = ''alice'' \<and> url = ''https://oze.example.com/login'' \<longrightarrow>
              map_of payload ''username'' = Some (PyStr ''alice@oze.example.com'')"
    using no nothere by (auto simp add: netloc_example)
  from t yes no shape ex show ?thesis by blast
qed

lemma find_oze_form:
  "find_tag ''form'' [(''id'', ''auth_form'')] oze_page =
     Some (Tag ''form'' [(''id'', ''auth_form''), (''action'', ''/auth/check'')]
              [Tag ''input'' [(''type'', ''hidden''), (''name'', ''csrf''), (''value'', ''t0k'')] [],
               Tag ''input'' [(''type'', ''text''), (''name'', ''username'')] [],
               Tag ''input'' [(''type'', ''password''), (''name'', ''password'')] []])"
  by (simp add: find_tag_def oze_page_def matches_def attr_matches_def cdata_list_attribute_def)


theorem oze_username_suffix_witness:
  "map_of (rq_data (last (w_trace (snd (u_oze_ent (serve ''https://oze.example.com/auth'' oze_page)
             ''alice'' ''secret'' ''https://oze.example.com/login'' w0)))))
     ''username'' = Some (PyStr ''alice@oze.example.com'')
   \<and> map_of (rq_data (last (w_trace (snd (u_oze_ent (serve ''https://oze.example.com/auth'' oze_page)
             ''alice@oze.example.com'' ''secret'' ''https://oze.example.com/login'' w0)))))
     ''username'' = Some (PyStr ''alice@oze.example.com'')
   \<and> map_of (rq_data (last (w_trace (snd (u_oze_ent (serve ''https://oze.example.com/auth'' oze_page)
             ''alice'' ''secret'' '' https://oze.example.com/login'' w0)))))
     ''username'' = Some (PyStr ''alice@oze.example.com'')
   \<and> map rq_url (w_trace (snd (u_oze_ent (serve ''https://oze.example.com/auth'' oze_page)
             ''alice'' ''secret'' ''https://oze.example.com/login'' w0))) =
     [''https://oze.example.com/login'', ''https://oze.example.com/auth'']"
proof -
  let ?net = "serve ''https://oze.example.com/auth'' oze_page"
  let ?rs = "\<lparr>rs_url = ''https://oze.example.com/auth'', rs_status = 200, rs_soup = oze_page,
              rs_cookies = [(''JSESSIONID'', ''abc'')]\<rparr>"
  let ?form = "Tag ''form'' [(''id'', ''auth_form''), (''action'', ''/auth/check'')]
              [Tag ''input'' [(''type'', ''hidden''), (''name'', ''csrf''), (''value'', ''t0k'')] [],
               Tag ''input'' [(''type'', ''text''), (''name'', ''username'')] [],
               Tag ''input'' [(''type'', ''password''), (''name'', ''password'')] []]"
  let ?url = "''https://oze.example.com/login''"
  let ?burl = "'' https://oze.example.com/login''"
  have a: "?url \<noteq> []" "?burl \<noteq> []" by simp_all
  have p: "plain_netloc (netloc ?url)" "plain_netloc (netloc ?burl)"
    by (simp_all add: netloc_example netloc_blank_example plain_netloc_def)
  have b: "?net (w_trace w0) (get_request ?url [] []) = Some ?rs"
    "?net (w_trace w0) (get_request ?burl [] []) = Some ?rs"
    by (simp_all add: serve_def)
  have c: "find_tag ''form'' [(''id'', ''auth_form'')] (rs_soup ?rs) = Some ?form"
    by (simp add: find_oze_form)
  have d: "list_all has_name (findAll ''input'' ?form)"
    by (simp add: findAll_def matches_def has_name_def)
  from oze_username_suffix [where net = ?net and w = w0 and username = "''alice''" and password = "''secret''",
      OF a(1) p(1) b(1) c d]
  obtain p1 where
    t1: "w_trace (snd (u_oze_ent ?net ''alice'' ''secret'' ?url w0)) =
           w_trace w0 @ [get_request ?url [] [],
                         post_request (rs_url ?rs) p1 (set_cookies (rs_cookies ?rs) [])]"
    and u1: "map_of p1 ''username'' = Some (PyStr ''alice@oze.example.com'')"
    by blast
  have shape: "?url = ''https'' @ ''://'' @ ''oze.example.com'' @ ''/login''
            \<and> ''https'' \<noteq> [] \<and> hd ''https'' \<in> set letters
            \<and> list_all (\<lambda>c. c \<in> set scheme_chars) ''https''
            \<and> list_all (\<lambda>c. c \<notin> set ''/?#@:'' \<and> c \<notin> set [CHR 0x09, CHR 0x0D, CHR 0x0A])
                 ''oze.example.com''
            \<and> (''/login'' = [] \<or> hd ''/login'' \<in> set ''/?#'')"
    by (simp add: letters_def scheme_chars_def)
  have occurs: "\<exists>a b. ''alice@oze.example.com'' = a @ ''oze.example.com'' @ b"
  proof (intro exI)
    show "''alice@oze.example.com'' = ''alice@'' @ ''oze.example.com'' @ []" by simp
  qed
  from oze_username_suffix [where net = ?net and w = w0 and username = "''alice@oze.example.com''"
      and password = "''secret''" and scheme = "''https''" and host = "''oze.example.com''"
      and rest = "''/login''", OF a(1) p(1) b(1) c d] shape
  obtain p2 where
    t2: "w_trace (snd (u_oze_ent ?net ''alice@oze.example.com'' ''secret'' ?url w0)) =
           w_trace w0 @ [get_request ?url [] [],
                         post_request (rs_url ?rs) p2 (set_cookies (rs_cookies ?rs) [])]"
    and u2: "map_of p2 ''username'' =
               Some (PyStr (if \<exists>a b. ''alice@oze.example.com'' = a @ ''oze.example.com'' @ b
                            then ''alice@oze.example.com''
                            else ''alice@oze.example.com'' @ ''@'' @ ''oze.example.com''))"
    by blast
  have u2': "map_of p2 ''username'' = Some (PyStr ''alice@oze.example.com'')"
    using u2 occurs by simp
  have absent: "\<not> (\<exists>a b. ''alice'' = a @ netloc ?burl @ b)"
    using contains_iff [of "''alice''" "''oze.example.com''"] by (simp add: netloc_blank_example)
  from oze_username_suffix [where net = ?net and w = w0 and username = "''alice''" and password = "''secret''",
      OF a(2) p(2) b(2) c d] absent
  obtain p3 where
    t3: "w_trace (snd (u_oze_ent ?net ''alice'' ''secret'' ?burl w0)) =
           w_trace w0 @ [get_request ?burl [] [],
                         post_request (rs_url ?rs) p3 (set_cookies (rs_cookies ?rs) [])]"
    and u3: "map_of p3 ''username'' = Some (PyStr (''alice'' @ ''@'' @ netloc ?burl))"
    by blast
  have u3': "map_of p3 ''username'' = Some (PyStr ''alice@oze.example.com'')"
    using u3 by (simp add: netloc_blank_example)
  from t1 u1 t2 u2' t3 u3' show ?thesis by (simp add: w0_def)
qed

lemma cas_run:
  assumes "url \<noteq> []" and "net (w_trace w) (get_request url [] []) = Some rs"
  shows "u_cas net username password url w =
           submit_form net (w_next w) rs
             (find_tag ''form'' [(''class'', ''cas__login-form'')] (rs_soup rs)) username password
             (exchange (w_next w) (get_request url [] []) rs (fresh_session w))"
  using assms
  by (simp add: u_cas_def submit_form_def bnd_Session bnd_session_get Let_def
      split: option.splits)

lemma simple_auth_run:
  assumes "url \<noteq> []" and "net (w_trace w) (get_request url [] []) = Some rs"
  shows "u_simple_auth net username password url form_attr w =
           submit_form net (w_next w) rs
             (find_tag ''form'' form_attr (rs_soup rs)) username password
             (exchange (w_next w) (get_request url [] []) rs (fresh_session w))"
  using assms
  by (simp add: u_simple_auth_def submit_form_def bnd_Session bnd_session_get Let_def
      split: option.splits)

lemma submit_after_get:
  assumes "list_all has_name (findAll ''input'' f)"
  shows "\<exists>payload.
           w_trace (snd (submit_form net (w_next w) rs (Some f) username password
                           (exchange (w_next w) (get_request url [] []) rs (fresh_session w)))) =
             w_trace w @ [get_request url [] [],
                          post_request (rs_url rs) payload (set_cookies (rs_cookies rs) [])]
         \<and> map_of payload =
             (last_value (findAll ''input'' f))
               (''username'' \<mapsto> PyStr username, ''password'' \<mapsto> PyStr password)
         \<and> distinct (map fst payload)"
  using submit_form_trace [OF assms, of net "w_next w" rs username password
      "exchange (w_next w) (get_request url [] []) rs (fresh_session w)"]
  by simp

subsection \<open>C7: the payload of the CAS and simple-form logins\<close>

text \<open>
  C7, as amended. Let \<^verbatim>\<open>_cas\<close> (or \<^verbatim>\<open>_simple_auth\<close>) fetch a page on which the form it
  looks up is found and every input of the form has a name. Then the payload of
  the POST, read as a dictionary, is exactly this: every name that occurs among the
  inputs of the form is mapped to the value of the last input with that name (\<^verbatim>\<open>None\<close>
  when that input has no value), except that \<open>username\<close> and \<open>password\<close> are mapped to the
  credentials; no other key is present and no key is repeated. When no two inputs share
  a name, this dictionary holds the name and value of every input.
\<close>

theorem form_payload_last_values_overlaid:
  assumes "url \<noteq> []" and "net (w_trace w) (get_request url [] []) = Some rs"
  shows "(find_tag ''form'' [(''class'', ''cas__login-form'')] (rs_soup rs) = Some form
          \<and> list_all has_name (findAll ''input'' form) \<longrightarrow>
            (\<exists>payload.
               w_trace (snd (u_cas net username password url w)) =
                 w_trace w @ [get_request url [] [],
                              post_request (rs_url rs) payload (set_cookies (rs_cookies rs) [])]
             \<and> map_of payload =
                 (last_value (findAll ''input'' form))
                   (''username'' \<mapsto> PyStr username, ''password'' \<mapsto> PyStr password)
             \<and> distinct (map fst payload)))
       \<and> (find_tag ''form'' form_attr (rs_soup rs) = Some form'
          \<and> list_all has_name (findAll ''input'' form') \<longrightarrow>
            (\<exists>payload.
               w_trace (snd (u_simple_auth net username password url form_attr w)) =
                 w_trace w @ [get_request url [] [],
                              post_request (rs_url rs) payload (set_cookies (rs_cookies rs) [])]
             \<and> map_of payload =
                 (last_value (findAll ''input'' form'))
                   (''username'' \<mapsto> PyStr username, ''password'' \<mapsto> PyStr password)
             \<and> distinct (map fst payload)))
       \<and> (distinct (map (\<lambda>i. map_of (attrs i) ''name'') inputs) \<and> i \<in> set inputs
          \<and> map_of (attrs i) ''name'' = Some n \<longrightarrow>
            last_value inputs n = Some (tag_get i ''value''))"
proof (intro conjI impI)
  assume "find_tag ''form'' [(''class'', ''cas__login-form'')] (rs_soup rs) = Some form
          \<and> list_all has_name (findAll ''input'' form)"
  then show "\<exists>payload.
               w_trace (snd (u_cas net username password url w)) =
                 w_trace w @ [get_request url [] [],
                              post_request (rs_url rs) payload (set_cookies (rs_cookies rs) [])]
             \<and> map_of payload =
                 (last_value (findAll ''input'' form))
                   (''username'' \<mapsto> PyStr username, ''password'' \<mapsto> PyStr password)
             \<and> distinct (map fst payload)"
    using cas_run [where net = net and w = w, OF assms] submit_after_get [of form net w rs]
    by simp
next
  assume "find_tag ''form'' form_attr (rs_soup rs) = Some form'
          \<and> list_all has_name (findAll ''input'' form')"
  then show "\<exists>payload.
               w_trace (snd (u_simple_auth net username password url form_attr w)) =
                 w_trace w @ [get_request url [] [],
                              post_request (rs_url rs) payload (set_cookies (rs_cookies rs) [])]
             \<and> map_of payload =
                 (last_value (findAll ''input'' form'))
                   (''username'' \<mapsto> PyStr username, ''password'' \<mapsto> PyStr password)
             \<and> distinct (map fst payload)"
    using simple_auth_run [where net = net and w = w, OF assms] submit_after_get [of form' net w rs]
    by simp
next
  assume "distinct (map (\<lambda>i. map_of (attrs i) ''name'') inputs) \<and> i \<in> set inputs
          \<and> map_of (attrs i) ''name'' = Some n"
  then show "last_value inputs n = Some (tag_get i ''value'')"
    using last_value_distinct by blast
qed

lemma find_cas_form:
  "find_tag ''form'' [(''class'', ''cas__login-form'')] cas_page = Some cas_form"
  by (simp add: find_tag_def cas_page_def cas_form_def matches_def attr_matches_def
      cdata_list_attribute_def isspace_def)

lemma find_cas_form_by_id:
  "find_tag ''form'' [(''id'', ''fm1'')] cas_page = Some cas_form"
  by (simp add: find_tag_def cas_page_def cas_form_def matches_def attr_matches_def
      cdata_list_attribute_def)

lemma cas_form_inputs:
  "findAll ''input'' cas_form =
     [Tag ''input'' [(''type'', ''hidden''), (''name'', ''lt''), (''value'', ''LT-1'')] [],
      Tag ''input'' [(''type'', ''hidden''), (''name'', ''execution''), (''value'', ''e1s1'')] [],
      Tag ''input'' [(''type'', ''text''), (''name'', ''username'')] [],
      Tag ''input'' [(''type'', ''password''), (''name'', ''password'')] []]"
  by (simp add: findAll_def cas_form_def matches_def)

theorem form_payload_last_values_overlaid_witness:
  "(\<exists>payload.
      w_trace (snd (u_cas (serve ''https://cas.example/cas/login'' cas_page)
                      ''alice'' ''secret'' ''https://cas.example/login'' w0)) =
        [get_request ''https://cas.example/login'' [] [],
         post_request ''https://cas.example/cas/login'' payload [(''JSESSIONID'', ''abc'')]]
    \<and> map_of payload ''lt'' = Some (PyStr ''LT-1'')
    \<and> map_of payload ''execution'' = Some (PyStr ''e1s1'')
    \<and> map_of payload ''username'' = Some (PyStr ''alice'')
    \<and> map_of payload ''password'' = Some (PyStr ''secret'')
    \<and> map_of payload ''action'' = None)
   \<and> (\<exists>payload.
      w_trace (snd (u_simple_auth (serve ''https://cas.example/cas/login'' cas_page)
                      ''alice'' ''secret'' ''https://cas.example/login'' [(''id'', ''fm1'')] w0)) =
        [get_request ''https://cas.example/login'' [] [],
         post_request ''https://cas.example/cas/login'' payload [(''JSESSIONID'', ''abc'')]]
    \<and> map_of payload ''lt'' = Some (PyStr ''LT-1'')
    \<and> map_of payload ''execution'' = Some (PyStr ''e1s1'')
    \<and> map_of payload ''username'' = Some (PyStr ''alice'')
    \<and> map_of payload ''password'' = Some (PyStr ''secret'')
    \<and> map_of payload ''action'' = None)"
proof -
  let ?net = "serve ''https://cas.example/cas/login'' cas_page"
  let ?rs = "\<lparr>rs_url = ''https://cas.example/cas/login'', rs_status = 200, rs_soup = cas_page,
              rs_cookies = [(''JSESSIONID'', ''abc'')]\<rparr>"
  have a: "''https://cas.example/login'' \<noteq> []" by simp
  have b: "?net (w_trace w0) (get_request ''https://cas.example/login'' [] []) = Some ?rs"
    by (simp add: serve_def)
  have c: "find_tag ''form'' [(''class'', ''cas__login-form'')] (rs_soup ?rs) = Some cas_form
           \<and> list_all has_name (findAll ''input'' cas_form)"
    by (simp add: find_cas_form cas_form_inputs has_name_def)
  have d: "find_tag ''form'' [(''id'', ''fm1'')] (rs_soup ?rs) = Some cas_form
           \<and> list_all has_name (findAll ''input'' cas_form)"
    by (simp add: find_cas_form_by_id cas_form_inputs has_name_def)
  note th = form_payload_last_values_overlaid [where net = ?net and w = w0 and username = "''alice''" and password = "''secret''"
      and form = cas_form and form' = cas_form and form_attr = "[(''id'', ''fm1'')]", OF a b]
  from th c obtain p1 where
    p1: "w_trace (snd (u_cas ?net ''alice'' ''secret'' ''https://cas.example/login'' w0)) =
           w_trace w0 @ [get_request ''https://cas.example/login'' [] [],
                         post_request (rs_url ?rs) p1 (set_cookies (rs_cookies ?rs) [])]"
    and m1: "map_of p1 = (last_value (findAll ''input'' cas_form))
                           (''username'' \<mapsto> PyStr ''alice'', ''password'' \<mapsto> PyStr ''secret'')"
    by blast
  from th d obtain p2 where
    p2: "w_trace (snd (u_simple_auth ?net ''alice'' ''secret'' ''https://cas.example/login''
                         [(''id'', ''fm1'')] w0)) =
           w_trace w0 @ [get_request ''https://cas.example/login'' [] [],
                         post_request (rs_url ?rs) p2 (set_cookies (rs_cookies ?rs) [])]"
    and m2: "map_of p2 = (last_value (findAll ''input'' cas_form))
                           (''username'' \<mapsto> PyStr ''alice'', ''password'' \<mapsto> PyStr ''secret'')"
    by blast
  have l: "last_value (findAll ''input'' cas_form) ''lt'' = Some (PyStr ''LT-1'')"
          "last_value (findAll ''input'' cas_form) ''execution'' = Some (PyStr ''e1s1'')"
          "last_value (findAll ''input'' cas_form) ''action'' = None"
    by (simp_all add: cas_form_inputs tag_get_def)
  have "w_trace (snd (u_cas ?net ''alice'' ''secret'' ''https://cas.example/login'' w0)) =
        [get_request ''https://cas.example/login'' [] [],
         post_request ''https://cas.example/cas/login'' p1 [(''JSESSIONID'', ''abc'')]]
    \<and> map_of p1 ''lt'' = Some (PyStr ''LT-1'')
    \<and> map_of p1 ''execution'' = Some (PyStr ''e1s1'')
    \<and> map_of p1 ''username'' = Some (PyStr ''alice'')
    \<and> map_of p1 ''password'' = Some (PyStr ''secret'')
    \<and> map_of p1 ''action'' = None"
    using p1 m1 l by (simp add: w0_def set_cookies_def)
  moreover have "w_trace (snd (u_simple_auth ?net ''alice'' ''secret'' ''https://cas.example/login''
                         [(''id'', ''fm1'')] w0)) =
        [get_request ''https://cas.example/login'' [] [],
         post_request ''https://cas.example/cas/login'' p2 [(''JSESSIONID'', ''abc'')]]
    \<and> map_of p2 ''lt'' = Some (PyStr ''LT-1'')
    \<and> map_of p2 ''execution'' = Some (PyStr ''e1s1'')
    \<and> map_of p2 ''username'' = Some (PyStr ''alice'')
    \<and> map_of p2 ''password'' = Some (PyStr ''secret'')
    \<and> map_of p2 ''action'' = None"
    using p2 m2 l by (simp add: w0_def set_cookies_def)
  ultimately show ?thesis by blast
qed

lemma find_dup_form:
  "find_tag ''form'' [(''class'', ''cas__login-form'')] dup_page = Some dup_form"
  by (simp add: find_tag_def dup_page_def dup_form_def matches_def attr_matches_def
      cdata_list_attribute_def isspace_def)

lemma dup_form_inputs:
  "findAll ''input'' dup_form =
     [Tag ''input'' [(''type'', ''hidden''), (''name'', ''lt''), (''value'', ''A'')] [],
      Tag ''input'' [(''type'', ''hidden''), (''name'', ''lt''), (''value'', ''B'')] []]"
  by (simp add: findAll_def dup_form_def matches_def)

text \<open>
  C7 as stated fails when two inputs of the form share a name: the payload holds the
  pair of the later input only.
\<close>

theorem every_input_pair_counterexample:
  "find_tag ''form'' [(''class'', ''cas__login-form'')] dup_page = Some dup_form
   \<and> findAll ''input'' dup_form =
       [Tag ''input'' [(''type'', ''hidden''), (''name'', ''lt''), (''value'', ''A'')] [],
        Tag ''input'' [(''type'', ''hidden''), (''name'', ''lt''), (''value'', ''B'')] []]
   \<and> w_trace (snd (u_cas (serve ''https://cas.example/cas/login'' dup_page)
                      ''alice'' ''secret'' ''https://cas.example/login'' w0)) =
       [get_request ''https://cas.example/login'' [] [],
        post_request ''https://cas.example/cas/login''
          [(''lt'', PyStr ''B''), (''username'', PyStr ''alice''), (''password'', PyStr ''secret'')]
          [(''JSESSIONID'', ''abc'')]]
   \<and> w_trace (snd (u_simple_auth (serve ''https://cas.example/cas/login'' dup_page)
                      ''alice'' ''secret'' ''https://cas.example/login'' [] w0)) =
       [get_request ''https://cas.example/login'' [] [],
        post_request ''https://cas.example/cas/login''
          [(''lt'', PyStr ''B''), (''username'', PyStr ''alice''), (''password'', PyStr ''secret'')]
          [(''JSESSIONID'', ''abc'')]]
   \<and> (''lt'', PyStr ''A'') \<notin>
       set [(''lt'', PyStr ''B''), (''username'', PyStr ''alice''), (''password'', PyStr ''secret'')]"
proof -
  let ?net = "serve ''https://cas.example/cas/login'' dup_page"
  let ?rs = "\<lparr>rs_url = ''https://cas.example/cas/login'', rs_status = 200, rs_soup = dup_page,
              rs_cookies = [(''JSESSIONID'', ''abc'')]\<rparr>"
  have b: "?net (w_trace w0) (get_request ''https://cas.example/login'' [] []) = Some ?rs"
    by (simp add: serve_def)
  have f: "form_inputs (findAll ''input'' dup_form) [] = Inr [(''lt'', PyStr ''B'')]"
    by (simp add: dup_form_inputs tag_get_def)
  have any: "find_tag ''form'' [] dup_page = Some dup_form"
    by (simp add: find_tag_def dup_page_def dup_form_def matches_def)
  have "w_trace (snd (u_cas ?net ''alice'' ''secret'' ''https://cas.example/login'' w0)) =
       [get_request ''https://cas.example/login'' [] [],
        post_request ''https://cas.example/cas/login''
          [(''lt'', PyStr ''B''), (''username'', PyStr ''alice''), (''password'', PyStr ''secret'')]
          [(''JSESSIONID'', ''abc'')]]"
    using cas_run [where net = ?net and w = w0, OF _ b]
    by (simp add: find_dup_form submit_form_run [OF f] Let_def serve_def w0_def set_cookies_def)
  moreover
  have "w_trace (snd (u_simple_auth ?net ''alice'' ''secret'' ''https://cas.example/login'' [] w0)) =
       [get_request ''https://cas.example/login'' [] [],
        post_request ''https://cas.example/cas/login''
          [(''lt'', PyStr ''B''), (''username'', PyStr ''alice''), (''password'', PyStr ''secret'')]
          [(''JSESSIONID'', ''abc'')]]"
    using simple_auth_run [where net = ?net and w = w0, OF _ b]
    by (simp add: any submit_form_run [OF f] Let_def serve_def w0_def set_cookies_def)
  ultimately show ?thesis
    by (simp add: find_dup_form dup_form_inputs)
qed

subsection \<open>Results of the basic steps\<close>

lemma raise_sel [simp]: "fst (raise e w) = Inl e" "snd (raise e w) = w"
  by (simp_all add: raise_def)

lemma ret_sel [simp]: "fst (ret x w) = Inr x" "snd (ret x w) = w"
  by (simp_all add: ret_def)

lemma cookies_sel [simp]: "fst (cookies s w) = Inr (w_jars w s)" "snd (cookies s w) = w"
  by (simp_all add: cookies_def)

lemma call_educonnect_simps [simp]:
  "call_educonnect None a b c d = raise (NameError ''educonnect'')"
  "call_educonnect (Some f) a b c d = f a b c d"
  by (simp_all add: call_educonnect_def)

subsection \<open>The calls of the relay and the SAML handshake of \<^verbatim>\<open>_cas_edu\<close>\<close>

text \<open>
  Called with a string in the place of the session, \<^verbatim>\<open>_educonnect\<close> raises before it
  sends anything: ENTLoginError when its fourth argument is falsy, and otherwise
  AttributeError, for \<^verbatim>\<open>str\<close> has no attribute \<^verbatim>\<open>post\<close>.
\<close>

lemma educonnect_on_str:
  "u_educonnect net (PyStr a) b c d =
     raise (if truthy d then AttributeError ''post'' else ENTLoginError ''Missing url attribute'')"
  by (simp add: u_educonnect_def post_on_def)

lemma cas_edu_run:
  assumes "url \<noteq> []" and "net (w_trace w) (get_request url [] []) = Some rs"
    and "getitem (find_tag ''input'' [(''name'', ''RelayState'')] (rs_soup rs)) ''value'' = Inr relay"
    and "getitem (find_tag ''input'' [(''name'', ''SAMLRequest'')] (rs_soup rs)) ''value'' = Inr saml"
    and "getitem (find_tag ''form'' [] (rs_soup rs)) ''action'' = Inr action"
  shows "u_cas_edu educonnect net username password url w =
           bnd (session_post net (w_next w) action
                  [(''RelayState'', PyStr relay), (''SAMLRequest'', PyStr saml)]) (\<lambda>response.
           bnd (call_educonnect educonnect (PyStr (rs_url response)) (PySession (w_next w))
                  (PyStr username) (PyStr password)) (\<lambda>_.
           cookies (w_next w)))
             (exchange (w_next w) (get_request url [] []) rs (fresh_session w))"
  using assms by (simp add: u_cas_edu_def bnd_Session bnd_session_get Let_def)



lemma sso_page_lookups:
  "getitem (find_tag ''input'' [(''name'', ''RelayState'')] sso_page) ''value'' = Inr ''ss:mem:1''"
  "getitem (find_tag ''input'' [(''name'', ''SAMLRequest'')] sso_page) ''value'' = Inr ''request''"
  "getitem (find_tag ''form'' [] sso_page) ''action'' = Inr ''https://idp.example/idp/SSO''"
  by (simp_all add: getitem_def find_tag_def sso_page_def matches_def attr_matches_def
      cdata_list_attribute_def)


subsection \<open>C10: where the payloads are posted\<close>




subsection \<open>C8: a malformed page\<close>









subsection \<open>C3: the relay call of \<^verbatim>\<open>_wayf\<close>\<close>

text \<open>
  C3. For a non-empty domain, \<^verbatim>\<open>_wayf\<close> requests the discovery endpoint with entityID
  and returnX defaulting to \<open>domain + /shibboleth\<close> and \<open>domain + /Shibboleth.sso/Login\<close>
  and with the fixed origin. It then calls \<^verbatim>\<open>_educonnect(response.url, session, username,
  password)\<close>, which binds the URL to the parameter \<open>session\<close> and the password to the
  parameter \<open>url\<close>. So, once the discovery request is answered, \<^verbatim>\<open>_wayf\<close> always raises,
  having made that one request: ENTLoginError when the password is empty, AttributeError
  (a \<^verbatim>\<open>str\<close> has no \<^verbatim>\<open>post\<close>) otherwise. It never returns a cookie jar.
\<close>

theorem wayf_relay_call:
  assumes "domain \<noteq> []"
    and "net (w_trace w) (wayf_get domain entityID returnX) = Some rs"
  shows "u_wayf net username password domain entityID returnX w =
           (Inl (if password = [] then ENTLoginError ''Missing url attribute''
                 else AttributeError ''post''),
            exchange (w_next w) (wayf_get domain entityID returnX) rs (fresh_session w))"
  using assms
  by (simp add: u_wayf_def wayf_get_def bnd_Session bnd_session_get Let_def educonnect_on_str
      raise_def)

theorem wayf_relay_call_witness:
  "fst (u_wayf (serve ''https://ent.example/discovery/WAYF'' []) ''alice'' ''secret''
          ''https://ent.example'' [] [] w0) = Inl (AttributeError ''post'')
   \<and> w_trace (snd (u_wayf (serve ''https://ent.example/discovery/WAYF'' []) ''alice'' ''secret''
          ''https://ent.example'' [] [] w0)) =
       [get_request ''https://ent.example/discovery/WAYF''
          [(''entityID'', ''https://ent.example/shibboleth''),
           (''returnX'', ''https://ent.example/Shibboleth.sso/Login''),
           (''returnIDParam'', ''entityID''), (''action'', ''selection''),
           (''origin'', ''https://_educonnect.education.gouv.fr/idp'')] []]"
  using wayf_relay_call [where net = "serve ''https://ent.example/discovery/WAYF'' []" and w = w0
      and domain = "''https://ent.example''" and entityID = "[]" and returnX = "[]"
      and username = "''alice''" and password = "''secret''"
      and rs = "\<lparr>rs_url = ''https://ent.example/discovery/WAYF'', rs_status = 200, rs_soup = [],
                  rs_cookies = [(''JSESSIONID'', ''abc'')]\<rparr>"]
  by (simp add: serve_def wayf_get_def w0_def)

subsection \<open>C2: the relay call of \<^verbatim>\<open>_cas_edu\<close>\<close>

text \<open>
  C2. Let \<^verbatim>\<open>_cas_edu\<close> fetch a page with the RelayState and SAMLRequest inputs and a form
  with an action, and let the POST to that action be answered. The next statement calls
  the name \<^verbatim>\<open>educonnect\<close> with the arguments (URL, session, username, password).
  \<^item> With the name unbound, as the module leaves it, the procedure raises NameError.
  \<^item> With the name bound to \<^verbatim>\<open>_educonnect\<close>, the procedure raises ENTLoginError when the
    password is empty and AttributeError otherwise (the URL is taken for the session).
  \<^item> With the name bound to any callable that returns, whatever it returns, the
    procedure returns the cookie jar of its session.
\<close>

theorem cas_edu_relay_call:
  assumes "url \<noteq> []" and "net (w_trace w) (get_request url [] []) = Some rs"
    and "getitem (find_tag ''input'' [(''name'', ''RelayState'')] (rs_soup rs)) ''value'' = Inr relay"
    and "getitem (find_tag ''input'' [(''name'', ''SAMLRequest'')] (rs_soup rs)) ''value'' = Inr saml"
    and "getitem (find_tag ''form'' [] (rs_soup rs)) ''action'' = Inr action"
    and "net (w_trace w @ [get_request url [] []])
           (post_request action [(''RelayState'', PyStr relay), (''SAMLRequest'', PyStr saml)]
              (set_cookies (rs_cookies rs) [])) = Some rs2"
  shows "fst (u_cas_edu None net username password url w) = Inl (NameError ''educonnect'')
       \<and> fst (u_cas_edu (Some (u_educonnect net)) net username password url w) =
           Inl (if password = [] then ENTLoginError ''Missing url attribute''
                else AttributeError ''post'')
       \<and> (callee (PyStr (rs_url rs2)) (PySession (w_next w)) (PyStr username) (PyStr password)
            (exchange (w_next w)
               (post_request action [(''RelayState'', PyStr relay), (''SAMLRequest'', PyStr saml)]
                  (set_cookies (rs_cookies rs) []))
               rs2 (exchange (w_next w) (get_request url [] []) rs (fresh_session w))) =
            (Inr returned, w3) \<longrightarrow>
          u_cas_edu (Some callee) net username password url w = (Inr (w_jars w3 (w_next w)), w3))"
  using assms(6)
  by (simp add: cas_edu_run [where net = net and w = w, OF assms(1-5)] bnd_session_post
      educonnect_on_str)
     (simp add: bnd_def cookies_def)

theorem cas_edu_relay_call_witness:
  "fst (u_cas_edu None (serve ''https://ent.example/sso'' sso_page)
          ''alice'' ''secret'' ''https://ent.example/login'' w0) = Inl (NameError ''educonnect'')
   \<and> fst (u_cas_edu (Some (u_educonnect (serve ''https://ent.example/sso'' sso_page)))
          (serve ''https://ent.example/sso'' sso_page)
          ''alice'' ''secret'' ''https://ent.example/login'' w0) = Inl (AttributeError ''post'')"
proof -
  let ?net = "serve ''https://ent.example/sso'' sso_page"
  let ?rs = "\<lparr>rs_url = ''https://ent.example/sso'', rs_status = 200, rs_soup = sso_page,
              rs_cookies = [(''JSESSIONID'', ''abc'')]\<rparr>"
  have a: "''https://ent.example/login'' \<noteq> []" by simp
  have b: "?net (w_trace w0) (get_request ''https://ent.example/login'' [] []) = Some ?rs"
    by (simp add: serve_def)
  have l: "getitem (find_tag ''input'' [(''name'', ''RelayState'')] (rs_soup ?rs)) ''value'' = Inr ''ss:mem:1''"
    "getitem (find_tag ''input'' [(''name'', ''SAMLRequest'')] (rs_soup ?rs)) ''value'' = Inr ''request''"
    "getitem (find_tag ''form'' [] (rs_soup ?rs)) ''action'' = Inr ''https://idp.example/idp/SSO''"
    by (simp_all add: sso_page_lookups)
  have p: "?net (w_trace w0 @ [get_request ''https://ent.example/login'' [] []])
           (post_request ''https://idp.example/idp/SSO''
              [(''RelayState'', PyStr ''ss:mem:1''), (''SAMLRequest'', PyStr ''request'')]
              (set_cookies (rs_cookies ?rs) [])) = Some ?rs"
    by (simp add: serve_def)
  from cas_edu_relay_call [where net = ?net and w = w0 and username = "''alice''" and password = "''secret''",
      OF a b l p]
  show ?thesis by simp
qed

subsection \<open>C1: the fallback of \<^verbatim>\<open>_open_ent_ng_edu\<close>\<close>

lemma open_ent_ng_edu_run:
  assumes "domain \<noteq> []" and "net (w_trace w) (sso_get domain) = Some rs"
  shows "u_open_ent_ng_edu educonnect open_ent_ng net username password domain w =
           bnd (call_educonnect educonnect (PyStr (rs_url rs)) (PySession (w_next w))
                  (PyStr username) (PyStr password)) (\<lambda>response.
           case response of
             None \<Rightarrow> call_open_ent_ng open_ent_ng response username password
           | Some r \<Rightarrow>
               if \<not> ok r then call_open_ent_ng open_ent_ng response username password
               else
                 (case find_tag ''title'' [] (rs_soup r) of
                    None \<Rightarrow> raise (AttributeError ''get_text'')
                  | Some title \<Rightarrow>
                      if get_text title = ''Authentification''
                      then call_open_ent_ng open_ent_ng response username password
                      else cookies (w_next w)))
             (exchange (w_next w) (sso_get domain) rs (fresh_session w))"
  using assms
  by (simp add: u_open_ent_ng_edu_def sso_get_def bnd_Session bnd_session_get Let_def)

text \<open>
  C1. Let the first request of \<^verbatim>\<open>_open_ent_ng_edu\<close> be answered, for a non-empty domain.
  \<^item> If the name \<^verbatim>\<open>educonnect\<close> is bound to a relay that returns \<^verbatim>\<open>None\<close>, the procedure
    raises and the fallback is not invoked: NameError when \<^verbatim>\<open>open_ent_ng\<close> is unbound,
    and otherwise AttributeError, from \<^verbatim>\<open>response.url\<close> with \<open>response\<close> being \<^verbatim>\<open>None\<close>.
  \<^item> If the relay returns a response whose status is an error, or whose page title is
    \<open>Authentification\<close>, the result is that of the call
    \<^verbatim>\<open>open_ent_ng(response.url, username, password)\<close>.
  \<^item> If the relay returns a response with a success status and another title, the
    cookie jar of the session is returned.
  \<^item> With \<^verbatim>\<open>educonnect\<close> unbound, as the module leaves it, the procedure raises
    NameError; with \<^verbatim>\<open>educonnect\<close> bound to \<^verbatim>\<open>_educonnect\<close> it raises ENTLoginError (empty
    password) or AttributeError, as \<^verbatim>\<open>_wayf\<close> does.
\<close>

theorem open_ent_ng_edu_fallback_on_no_response:
  assumes "domain \<noteq> []" and "net (w_trace w) (sso_get domain) = Some rs"
  shows "(relay (PyStr (rs_url rs)) (PySession (w_next w)) (PyStr username) (PyStr password)
            (exchange (w_next w) (sso_get domain) rs (fresh_session w)) = (Inr None, w2) \<longrightarrow>
            u_open_ent_ng_edu (Some relay) open_ent_ng net username password domain w =
              (Inl (case open_ent_ng of None \<Rightarrow> NameError ''open_ent_ng''
                    | Some fallback \<Rightarrow> AttributeError ''url''), w2))
       \<and> (relay (PyStr (rs_url rs)) (PySession (w_next w)) (PyStr username) (PyStr password)
            (exchange (w_next w) (sso_get domain) rs (fresh_session w)) = (Inr (Some r), w2)
          \<and> (\<not> ok r
             \<or> (case find_tag ''title'' [] (rs_soup r) of
                   None \<Rightarrow> False | Some title \<Rightarrow> get_text title = ''Authentification'')) \<longrightarrow>
            u_open_ent_ng_edu (Some relay) (Some fallback) net username password domain w =
              fallback (rs_url r) username password w2)
       \<and> (relay (PyStr (rs_url rs)) (PySession (w_next w)) (PyStr username) (PyStr password)
            (exchange (w_next w) (sso_get domain) rs (fresh_session w)) = (Inr (Some r), w2)
          \<and> ok r
          \<and> (case find_tag ''title'' [] (rs_soup r) of
                None \<Rightarrow> False | Some title \<Rightarrow> get_text title \<noteq> ''Authentification'') \<longrightarrow>
            u_open_ent_ng_edu (Some relay) open_ent_ng net username password domain w =
              (Inr (w_jars w2 (w_next w)), w2))
       \<and> u_open_ent_ng_edu None open_ent_ng net username password domain w =
           (Inl (NameError ''educonnect''),
            exchange (w_next w) (sso_get domain) rs (fresh_session w))
       \<and> u_open_ent_ng_edu (Some (u_educonnect net)) open_ent_ng net username password domain w =
           (Inl (if password = [] then ENTLoginError ''Missing url attribute''
                 else AttributeError ''post''),
            exchange (w_next w) (sso_get domain) rs (fresh_session w))"
proof (intro conjI impI)
  assume "relay (PyStr (rs_url rs)) (PySession (w_next w)) (PyStr username) (PyStr password)
            (exchange (w_next w) (sso_get domain) rs (fresh_session w)) = (Inr None, w2)"
  then show "u_open_ent_ng_edu (Some relay) open_ent_ng net username password domain w =
              (Inl (case open_ent_ng of None \<Rightarrow> NameError ''open_ent_ng''
                    | Some fallback \<Rightarrow> AttributeError ''url''), w2)"
    by (simp add: open_ent_ng_edu_run [where net = net and w = w, OF assms] bnd_def
        call_open_ent_ng_def raise_def split: option.splits)
next
  assume "relay (PyStr (rs_url rs)) (PySession (w_next w)) (PyStr username) (PyStr password)
            (exchange (w_next w) (sso_get domain) rs (fresh_session w)) = (Inr (Some r), w2)
          \<and> (\<not> ok r
             \<or> (case find_tag ''title'' [] (rs_soup r) of
                   None \<Rightarrow> False | Some title \<Rightarrow> get_text title = ''Authentification''))"
  then show "u_open_ent_ng_edu (Some relay) (Some fallback) net username password domain w =
              fallback (rs_url r) username password w2"
    by (auto simp add: open_ent_ng_edu_run [where net = net and w = w, OF assms] bnd_def
        call_open_ent_ng_def split: option.splits)
next
  assume "relay (PyStr (rs_url rs)) (PySession (w_next w)) (PyStr username) (PyStr password)
            (exchange (w_next w) (sso_get domain) rs (fresh_session w)) = (Inr (Some r), w2)
          \<and> ok r
          \<and> (case find_tag ''title'' [] (rs_soup r) of
                None \<Rightarrow> False | Some title \<Rightarrow> get_text title \<noteq> ''Authentification'')"
  then show "u_open_ent_ng_edu (Some relay) open_ent_ng net username password domain w =
              (Inr (w_jars w2 (w_next w)), w2)"
    by (auto simp add: open_ent_ng_edu_run [where net = net and w = w, OF assms] bnd_def
        cookies_def split: option.splits)
next
  show "u_open_ent_ng_edu None open_ent_ng net username password domain w =
           (Inl (NameError ''educonnect''),
            exchange (w_next w) (sso_get domain) rs (fresh_session w))"
    by (simp add: open_ent_ng_edu_run [where net = net and w = w, OF assms] prod_eq_iff)
next
  show "u_open_ent_ng_edu (Some (u_educonnect net)) open_ent_ng net username password domain w =
           (Inl (if password = [] then ENTLoginError ''Missing url attribute''
                 else AttributeError ''post''),
            exchange (w_next w) (sso_get domain) rs (fresh_session w))"
    by (simp add: open_ent_ng_edu_run [where net = net and w = w, OF assms] educonnect_on_str
        prod_eq_iff)
qed

theorem open_ent_ng_edu_fallback_on_no_response_witness:
  "fst (u_open_ent_ng_edu (Some (\<lambda>a b c d. ret None))
          (Some (u_open_ent_ng (serve ''https://educonnect.example/sso'' [])))
          (serve ''https://educonnect.example/sso'' []) ''alice'' ''secret''
          ''https://ent.example'' w0) = Inl (AttributeError ''url'')
   \<and> w_trace (snd (u_open_ent_ng_edu (Some (\<lambda>a b c d. ret None))
          (Some (u_open_ent_ng (serve ''https://educonnect.example/sso'' [])))
          (serve ''https://educonnect.example/sso'' []) ''alice'' ''secret''
          ''https://ent.example'' w0)) = [sso_get ''https://ent.example'']
   \<and> fst (u_open_ent_ng_edu None None
          (serve ''https://educonnect.example/sso'' []) ''alice'' ''secret''
          ''https://ent.example'' w0) = Inl (NameError ''educonnect'')
   \<and> fst (u_open_ent_ng_edu (Some (u_educonnect (serve ''https://educonnect.example/sso'' [])))
          (Some (u_open_ent_ng (serve ''https://educonnect.example/sso'' [])))
          (serve ''https://educonnect.example/sso'' []) ''alice'' ''secret''
          ''https://ent.example'' w0) = Inl (AttributeError ''post'')"
proof -
  let ?net = "serve ''https://educonnect.example/sso'' []"
  let ?rs = "\<lparr>rs_url = ''https://educonnect.example/sso'', rs_status = 200, rs_soup = [],
              rs_cookies = [(''JSESSIONID'', ''abc'')]\<rparr>"
  let ?w1 = "exchange (w_next w0) (sso_get ''https://ent.example'') ?rs (fresh_session w0)"
  have a: "''https://ent.example'' \<noteq> []" by simp
  have b: "?net (w_trace w0) (sso_get ''https://ent.example'') = Some ?rs"
    by (simp add: serve_def)
  have c: "(\<lambda>a b c d. ret None) (PyStr (rs_url ?rs)) (PySession (w_next w0)) (PyStr ''alice'')
             (PyStr ''secret'') ?w1 = (Inr (None :: response option), ?w1)"
    by (simp add: ret_def)
  note th = open_ent_ng_edu_fallback_on_no_response [where net = ?net and w = w0 and username = "''alice''" and password = "''secret''",
      OF a b]
  from th [where relay = "\<lambda>a b c d. ret None" and ?w2.0 = ?w1
      and open_ent_ng = "Some (u_open_ent_ng ?net)"] c
  have 1: "u_open_ent_ng_edu (Some (\<lambda>a b c d. ret None)) (Some (u_open_ent_ng ?net)) ?net
             ''alice'' ''secret'' ''https://ent.example'' w0 = (Inl (AttributeError ''url''), ?w1)"
    by simp
  from th [where open_ent_ng = None]
  have 2: "u_open_ent_ng_edu None None ?net ''alice'' ''secret'' ''https://ent.example'' w0 =
             (Inl (NameError ''educonnect''), ?w1)"
    by blast
  from th [where open_ent_ng = "Some (u_open_ent_ng ?net)"]
  have 3: "u_open_ent_ng_edu (Some (u_educonnect ?net)) (Some (u_open_ent_ng ?net)) ?net
             ''alice'' ''secret'' ''https://ent.example'' w0 = (Inl (AttributeError ''post''), ?w1)"
    by simp
  from 1 2 3 show ?thesis by (simp add: w0_def)
qed

end
